theory Spec2Isabelle
  imports Complex_Main
begin

section \<open>Python values used by the flood risk checker\<close>

text \<open>
  The checker is Python. The exceptions its core can raise are values of \<open>py_error\<close>;
  a function that can raise returns \<open>py_error + 'a\<close>. Printing to the console is
  left out.
\<close>

datatype py_error = KeyError string | AttributeError string

text \<open>Attribute values of a dataset row: text, integers, and the missing value.\<close>

datatype pyval = PStr string | PInt int | PNone

text \<open>Decimal rendering of a natural number, as \<^verbatim>\<open>str(n)\<close> and f-strings do.\<close>

definition digit_char :: "nat \<Rightarrow> char" where
  "digit_char d = ''0123456789'' ! d"

function str_nat :: "nat \<Rightarrow> string" where
  "str_nat n = (if n < 10 then [digit_char n] else str_nat (n div 10) @ [digit_char (n mod 10)])"
  by pat_completeness auto
termination
  by (relation "measure id") auto

declare str_nat.simps [simp del]

definition py_str :: "pyval \<Rightarrow> string" where
  "py_str v = (case v of
      PStr s \<Rightarrow> s
    | PInt i \<Rightarrow> (if i < 0 then CHR ''-'' # str_nat (nat (- i)) else str_nat (nat i))
    | PNone \<Rightarrow> ''None'')"

text \<open>The substring test \<^verbatim>\<open>pat in s\<close> on Python strings.\<close>

fun startswith :: "string \<Rightarrow> string \<Rightarrow> bool" where
  "startswith [] s = True"
| "startswith (p # ps) [] = False"
| "startswith (p # ps) (c # cs) = (p = c \<and> startswith ps cs)"

fun py_in :: "string \<Rightarrow> string \<Rightarrow> bool" where
  "py_in pat [] = (pat = [])"
| "py_in pat (c # cs) = (startswith pat (c # cs) \<or> py_in pat cs)"

section \<open>Floats\<close>

text \<open>
  A distance is a Python float: a number or nan (\<^verbatim>\<open>point.distance\<close> returns nan for an
  empty geometry). The core compares floats, sorts them and rounds them to two decimal
  places, so a number is modelled as a real. Every comparison with nan is false.
\<close>

datatype pyfloat = Fin real | NaN

fun flt :: "pyfloat \<Rightarrow> pyfloat \<Rightarrow> bool" where
  "flt (Fin a) (Fin b) = (a < b)"
| "flt (Fin a) NaN = False"
| "flt NaN b = False"

fun fle :: "pyfloat \<Rightarrow> pyfloat \<Rightarrow> bool" where
  "fle (Fin a) (Fin b) = (a \<le> b)"
| "fle (Fin a) NaN = False"
| "fle NaN b = False"

text \<open>
  \<^verbatim>\<open>round(x, 2)\<close>: the nearest multiple of 0.01, a tie going to the even multiple;
  nan stays nan.
\<close>

definition round2 :: "real \<Rightarrow> real" where
  "round2 x =
     (let s = x * 100; f = \<lfloor>s\<rfloor>; r = s - of_int f
      in (if r < 1 / 2 then of_int f
          else if 1 / 2 < r then of_int (f + 1)
          else if even f then of_int f else of_int (f + 1)) / 100)"

fun py_round2 :: "pyfloat \<Rightarrow> pyfloat" where
  "py_round2 (Fin x) = Fin (round2 x)"
| "py_round2 NaN = NaN"

section \<open>list.sort\<close>

text \<open>
  \<^verbatim>\<open>list.sort(key=...)\<close> compares the keys with \<^verbatim>\<open><\<close> only and is stable.
  \<open>list_sort\<close> is a stable insertion sort that compares with \<open>flt\<close> only. When no
  key is nan, \<open>flt\<close> orders the keys totally, the stable ascending order is unique
  and \<open>list_sort\<close> returns the list that \<^verbatim>\<open>list.sort\<close> leaves. A list in which no
  key is less than the key before it is one ascending run for \<^verbatim>\<open>list.sort\<close>, which
  leaves it as it is, and so does \<open>list_sort\<close>. For any other list with a nan key the
  order that \<^verbatim>\<open>list.sort\<close> leaves depends on how the interpreter finds and merges
  runs; the properties below that concern the order are stated for the first two cases.
\<close>

fun insert_lt :: "('a \<Rightarrow> pyfloat) \<Rightarrow> 'a \<Rightarrow> 'a list \<Rightarrow> 'a list" where
  "insert_lt key x [] = [x]"
| "insert_lt key x (y # ys) =
     (if flt (key y) (key x) then y # insert_lt key x ys else x # y # ys)"

fun list_sort :: "('a \<Rightarrow> pyfloat) \<Rightarrow> 'a list \<Rightarrow> 'a list" where
  "list_sort key [] = []"
| "list_sort key (x # xs) = insert_lt key x (list_sort key xs)"

section \<open>Data model\<close>

type_synonym point = "real \<times> real"

text \<open>
  One row of a GeoDataFrame: its named attributes and its geometry. The set of
  attributes varies with the dataset, so it is a partial map from attribute names;
  \<^verbatim>\<open>'fra_id' in area\<close> asks whether the name is in its domain. The geometry of a row
  can be missing (\<open>None\<close>). The geometry type \<open>'g\<close> and the two shapely queries on it
  (\<^verbatim>\<open>geometry.contains(point)\<close> and \<^verbatim>\<open>point.distance(geometry)\<close>) belong to a
  library outside the repository; the functions below take the two queries as the
  parameters \<open>contains\<close> and \<open>distance\<close>. A point is a pair of numbers.
\<close>

record 'g area_row =
  row_fields :: "string \<rightharpoonup> pyval"
  row_geometry :: "'g option"

text \<open>
  The dictionary \<^verbatim>\<open>area_info\<close> built for each row. The keys \<^verbatim>\<open>cycle\<close> and
  \<^verbatim>\<open>probability\<close> are present in some schema branches only.
\<close>

record 'g area_info =
  distance_meters :: pyfloat
  risk_status :: string
  geometry :: 'g
  area_id :: pyval
  name :: pyval
  source :: pyval
  cycle :: "pyval option"
  probability :: "pyval option"

text \<open>
  A per-category entry of the assessment: the initial placeholder (risk level and note)
  or the assessed form with its five keys.
\<close>

datatype category_assessment =
    Placeholder (risk_level: string) (note_text: string)
  | Assessed (risk_level: string) (yearly_chance_current: string)
      (yearly_chance_2040s: string) (closest_distance: "pyfloat option") (areas_count: nat)

text \<open>The assessment dictionary as returned; \<open>'r\<close> is the reservoir API's result.\<close>

record ('g, 'r) assessment =
  coordinates :: point
  surface_water :: category_assessment
  rivers_and_sea :: category_assessment
  reservoirs :: 'r
  groundwater :: category_assessment
  nearest_areas :: "'g area_info list"

text \<open>The datasets the checker object holds after loading (\<open>None\<close>: not loaded).\<close>

record 'g checker =
  fra_data :: "'g area_row list option"
  rivers_sea_data :: "'g area_row list option"

section \<open>calculate\_distance\_to\_flood\_areas\<close>

text \<open>
  The body of the loop over the rows; \<open>n\<close> is \<^verbatim>\<open>len(results)\<close> at that moment.
  \<^verbatim>\<open>area.geometry.contains(point)\<close> raises AttributeError on a row whose geometry is
  missing. \<^verbatim>\<open>area['fra_name']\<close> and \<^verbatim>\<open>area['flood_sour']\<close> raise KeyError on a
  row without that attribute; \<^verbatim>\<open>area.get('frr_cycle', 'Unknown')\<close> does not.
\<close>

definition build_area_info ::
  "('g \<Rightarrow> point \<Rightarrow> bool) \<Rightarrow> (point \<Rightarrow> 'g \<Rightarrow> pyfloat) \<Rightarrow> point \<Rightarrow> nat \<Rightarrow> 'g area_row
     \<Rightarrow> py_error + 'g area_info" where
  "build_area_info contains distance point n area =
     (case row_geometry area of
        None \<Rightarrow> Inl (AttributeError ''contains'')
      | Some g \<Rightarrow>
     (let is_inside = contains g point;
          dist = (if is_inside then Fin 0 else distance point g);
          status = (if is_inside then ''INSIDE'' else ''OUTSIDE'')
      in case row_fields area ''fra_id'' of
           Some fid \<Rightarrow>
             (case row_fields area ''fra_name'' of
                None \<Rightarrow> Inl (KeyError ''fra_name'')
              | Some fname \<Rightarrow>
                  (case row_fields area ''flood_sour'' of
                     None \<Rightarrow> Inl (KeyError ''flood_sour'')
                   | Some fsour \<Rightarrow>
                       Inr \<lparr>distance_meters = py_round2 dist, risk_status = status,
                            geometry = g,
                            area_id = fid, name = fname, source = fsour,
                            cycle = Some (case row_fields area ''frr_cycle'' of
                                            None \<Rightarrow> PStr ''Unknown'' | Some c \<Rightarrow> c),
                            probability = None\<rparr>))
         | None \<Rightarrow>
             (case row_fields area ''prob_4band'' of
                Some band \<Rightarrow>
                  Inr \<lparr>distance_meters = py_round2 dist, risk_status = status,
                       geometry = g,
                       area_id = PStr (''Rivers_Sea_'' @ str_nat n),
                       name = PStr ''Rivers and Sea Risk Area'',
                       source = PStr ''Rivers and Sea'',
                       cycle = None, probability = Some band\<rparr>
              | None \<Rightarrow>
                  Inr \<lparr>distance_meters = py_round2 dist, risk_status = status,
                       geometry = g,
                       area_id = PStr (''Area_'' @ str_nat n),
                       name = PStr ''Flood Risk Area'',
                       source = PStr ''Unknown'',
                       cycle = Some (PStr ''Unknown''), probability = None\<rparr>)))"

text \<open>
  The rows on which the field extraction raises: \<^verbatim>\<open>fra_id\<close> is present and
  \<^verbatim>\<open>fra_name\<close> or \<^verbatim>\<open>flood_sour\<close> is not.
\<close>

definition lacks_fra_field :: "'g area_row \<Rightarrow> bool" where
  "lacks_fra_field area =
     (row_fields area ''fra_id'' \<noteq> None \<and>
      (row_fields area ''fra_name'' = None \<or> row_fields area ''flood_sour'' = None))"

text \<open>The rows on which the loop body raises.\<close>

definition raising_row :: "'g area_row \<Rightarrow> bool" where
  "raising_row area = (row_geometry area = None \<or> lacks_fra_field area)"

text \<open>The loop \<^verbatim>\<open>for _, area in data_source.iterrows()\<close>, appending to \<open>results\<close>.\<close>

fun iterrows ::
  "('g \<Rightarrow> point \<Rightarrow> bool) \<Rightarrow> (point \<Rightarrow> 'g \<Rightarrow> pyfloat) \<Rightarrow> point \<Rightarrow> 'g area_row list
     \<Rightarrow> 'g area_info list \<Rightarrow> py_error + 'g area_info list" where
  "iterrows contains distance point [] results = Inr results"
| "iterrows contains distance point (area # rest) results =
     (case build_area_info contains distance point (length results) area of
        Inl e \<Rightarrow> Inl e
      | Inr info \<Rightarrow> iterrows contains distance point rest (results @ [info]))"

text \<open>The whole method.\<close>

definition calculate_distance_to_flood_areas ::
  "('g \<Rightarrow> point \<Rightarrow> bool) \<Rightarrow> (point \<Rightarrow> 'g \<Rightarrow> pyfloat) \<Rightarrow> point option
     \<Rightarrow> 'g area_row list option \<Rightarrow> py_error + 'g area_info list" where
  "calculate_distance_to_flood_areas contains distance coords data_source =
     (case coords of
        None \<Rightarrow> Inr []
      | Some point \<Rightarrow>
          (case data_source of
             None \<Rightarrow> Inr []
           | Some rows \<Rightarrow>
               if rows = [] then Inr []
               else (case iterrows contains distance point rows [] of
                       Inl e \<Rightarrow> Inl e
                     | Inr results \<Rightarrow> Inr (list_sort distance_meters results))))"

text \<open>
  The value of the local variable \<^verbatim>\<open>distance\<close> in the loop body, before it is
  rounded into \<^verbatim>\<open>distance_meters\<close>.
\<close>

definition unrounded_distance ::
  "('g \<Rightarrow> point \<Rightarrow> bool) \<Rightarrow> (point \<Rightarrow> 'g \<Rightarrow> pyfloat) \<Rightarrow> point \<Rightarrow> 'g \<Rightarrow> pyfloat" where
  "unrounded_distance contains distance point g =
     (if contains g point then Fin 0 else distance point g)"

section \<open>Risk classification and likelihood bands\<close>

definition categorize_risk_from_distance :: "pyfloat \<Rightarrow> bool \<Rightarrow> string" where
  "categorize_risk_from_distance distance_m is_inside =
     (if is_inside then ''HIGH''
      else if fle distance_m (Fin 100) then ''MEDIUM''
      else if fle distance_m (Fin 500) then ''LOW''
      else ''VERY LOW'')"

definition get_yearly_chance_estimate :: "string \<Rightarrow> string" where
  "get_yearly_chance_estimate level =
     (if level = ''HIGH'' then ''Greater than 1 in 30 (3.3%)''
      else if level = ''MEDIUM'' then ''Between 1 in 100 and 1 in 30 (1% to 3.3%)''
      else if level = ''LOW'' then ''Between 1 in 1000 and 1 in 100 (0.1% to 1%)''
      else if level = ''VERY LOW'' then ''Less than 1 in 1000 (0.1%)''
      else ''Unknown'')"

definition project_future_risk :: "string \<Rightarrow> string" where
  "project_future_risk current_risk =
     (if py_in ''Greater than 1 in 30'' current_risk
        then ''Greater than 1 in 30 (3.3%) - increasing trend expected''
      else if py_in ''Between 1 in 100 and 1 in 30'' current_risk
        then ''Between 1 in 75 and 1 in 30 (1.3% to 3.3%) - higher due to climate change''
      else current_risk @ '' - may increase slightly due to climate change'')"

section \<open>assess\_comprehensive\_flood\_risk\<close>

text \<open>The two list comprehensions that separate the areas by flood source.\<close>

definition surface_areas :: "'g area_info list \<Rightarrow> 'g area_info list" where
  "surface_areas all_fra_areas =
     filter (\<lambda>a. py_in ''Surface Water'' (py_str (source a))) all_fra_areas"

definition rivers_areas :: "'g area_info list \<Rightarrow> 'g area_info list" where
  "rivers_areas all_fra_areas =
     filter (\<lambda>a. py_in ''Rivers'' (py_str (source a)) \<or> py_in ''Sea'' (py_str (source a)))
       all_fra_areas"

text \<open>
  The source assesses surface water and rivers and sea with the same block of code, once
  per category; \<open>assess_areas\<close> is that block.
\<close>

definition assess_areas :: "'g area_info list \<Rightarrow> category_assessment" where
  "assess_areas areas =
     (case areas of
        closest # _ \<Rightarrow>
          (let risk = categorize_risk_from_distance (distance_meters closest)
                        (risk_status closest = ''INSIDE'')
           in Assessed risk (get_yearly_chance_estimate risk)
                (project_future_risk (get_yearly_chance_estimate risk))
                (Some (distance_meters closest)) (length areas))
      | [] \<Rightarrow>
          Assessed ''VERY LOW'' ''Less than 1 in 1000 (0.1%)''
            ''Less than 1 in 1000 (0.1%) - may increase slightly'' None 0)"

text \<open>
  The method. \<open>check_reservoir_risk_api\<close> is the network call, a parameter here; its
  result is stored as it comes. \<open>Inr None\<close> is the empty dictionary returned when there
  are no coordinates.
\<close>

definition assess_comprehensive_flood_risk ::
  "('g \<Rightarrow> point \<Rightarrow> bool) \<Rightarrow> (point \<Rightarrow> 'g \<Rightarrow> pyfloat) \<Rightarrow> (point \<Rightarrow> 'r) \<Rightarrow> 'g checker
     \<Rightarrow> point option \<Rightarrow> py_error + ('g, 'r) assessment option" where
  "assess_comprehensive_flood_risk contains distance check_reservoir_risk_api self coords =
     (case coords of
        None \<Rightarrow> Inr None
      | Some point \<Rightarrow>
          (case fra_data self of
             None \<Rightarrow>
               Inr (Some \<lparr>coordinates = point,
                     surface_water = Placeholder ''DATA NOT AVAILABLE''
                       ''Surface water data not yet integrated'',
                     rivers_and_sea = Placeholder ''DATA NOT AVAILABLE'' ''Processing...'',
                     reservoirs = check_reservoir_risk_api point,
                     groundwater = Placeholder ''DATA NOT AVAILABLE'' ''Requires BGS data'',
                     nearest_areas = []\<rparr>)
           | Some fra \<Rightarrow>
               (case calculate_distance_to_flood_areas contains distance (Some point) (Some fra) of
                  Inl e \<Rightarrow> Inl e
                | Inr all_fra_areas \<Rightarrow>
                    Inr (Some \<lparr>coordinates = point,
                          surface_water = assess_areas (surface_areas all_fra_areas),
                          rivers_and_sea = assess_areas (rivers_areas all_fra_areas),
                          reservoirs = check_reservoir_risk_api point,
                          groundwater = Placeholder ''DATA NOT AVAILABLE'' ''Requires BGS data'',
                          nearest_areas = take 5 all_fra_areas\<rparr>))))"

section \<open>A concrete geometry for examples\<close>

text \<open>
  Axis-aligned rectangles \<open>Box xmin ymin xmax ymax\<close> and the empty polygon, with the two
  shapely queries on them: \<open>shape_contains\<close> holds for the points of the interior of a
  rectangle (a point on the boundary is not contained), and \<open>shape_distance\<close> is the
  Euclidean distance from the point to the closed rectangle. The empty polygon contains
  no point and its distance from any point is nan. These instantiate the parameters
  \<open>contains\<close> and \<open>distance\<close> in the examples.
\<close>

datatype shape = Box real real real real | EmptyPolygon

fun shape_contains :: "shape \<Rightarrow> point \<Rightarrow> bool" where
  "shape_contains (Box x0 y0 x1 y1) p = (x0 < fst p \<and> fst p < x1 \<and> y0 < snd p \<and> snd p < y1)"
| "shape_contains EmptyPolygon p = False"

fun shape_distance :: "point \<Rightarrow> shape \<Rightarrow> pyfloat" where
  "shape_distance p (Box x0 y0 x1 y1) =
     (let dx = max (max (x0 - fst p) 0) (fst p - x1);
          dy = max (max (y0 - snd p) 0) (snd p - y1)
      in Fin (if dy = 0 then dx else if dx = 0 then dy else sqrt (dx ^ 2 + dy ^ 2)))"
| "shape_distance p EmptyPolygon = NaN"

text \<open>
  Rows of the three schemas, a row with \<^verbatim>\<open>fra_id\<close> alone, and a row of the first
  schema without a geometry.
\<close>

definition fra_row :: "int \<Rightarrow> string \<Rightarrow> string \<Rightarrow> 'g \<Rightarrow> 'g area_row" where
  "fra_row i nm src g =
     \<lparr>row_fields = [''fra_id'' \<mapsto> PInt i, ''fra_name'' \<mapsto> PStr nm,
                     ''flood_sour'' \<mapsto> PStr src, ''frr_cycle'' \<mapsto> PInt 2],
      row_geometry = Some g\<rparr>"

definition band_row :: "string \<Rightarrow> 'g \<Rightarrow> 'g area_row" where
  "band_row band g =
     \<lparr>row_fields = [''prob_4band'' \<mapsto> PStr band], row_geometry = Some g\<rparr>"

definition plain_row :: "'g \<Rightarrow> 'g area_row" where
  "plain_row g = \<lparr>row_fields = Map.empty, row_geometry = Some g\<rparr>"

definition id_only_row :: "int \<Rightarrow> 'g \<Rightarrow> 'g area_row" where
  "id_only_row i g = \<lparr>row_fields = [''fra_id'' \<mapsto> PInt i], row_geometry = Some g\<rparr>"

definition no_geometry_row :: "int \<Rightarrow> string \<Rightarrow> string \<Rightarrow> 'g area_row" where
  "no_geometry_row i nm src =
     \<lparr>row_fields = [''fra_id'' \<mapsto> PInt i, ''fra_name'' \<mapsto> PStr nm,
                     ''flood_sour'' \<mapsto> PStr src, ''frr_cycle'' \<mapsto> PInt 2],
      row_geometry = None\<rparr>"

text \<open>The \<^verbatim>\<open>area_info\<close> that an \<open>fra_row\<close> yields.\<close>

definition fra_info :: "pyfloat \<Rightarrow> string \<Rightarrow> int \<Rightarrow> string \<Rightarrow> string \<Rightarrow> 'g \<Rightarrow> 'g area_info" where
  "fra_info dm status i nm src g =
     \<lparr>distance_meters = dm, risk_status = status, geometry = g,
      area_id = PInt i, name = PStr nm, source = PStr src,
      cycle = Some (PInt 2), probability = None\<rparr>"

text \<open>
  Three areas east of the point \<open>(0, 0)\<close>, at 10.004 m, 10.001 m and 3 m, in this
  order in the dataset.
\<close>

definition example_rows :: "shape area_row list" where
  "example_rows =
     [fra_row 1 ''A'' ''Surface Water'' (Box 10.004 (- 1) 11 1),
      fra_row 2 ''B'' ''Rivers and Sea'' (Box 10.001 (- 1) 11 1),
      fra_row 3 ''C'' ''Surface Water'' (Box 3 (- 1) 4 1)]"

text \<open>
  An area at 600 m, an area whose polygon is empty, and an area at 3 m, in this order.
\<close>

definition nan_rows :: "shape area_row list" where
  "nan_rows =
     [fra_row 1 ''A'' ''Surface Water'' (Box 600 (- 1) 700 1),
      fra_row 2 ''E'' ''Surface Water'' EmptyPolygon,
      fra_row 3 ''C'' ''Surface Water'' (Box 3 (- 1) 4 1)]"

text \<open>The \<^verbatim>\<open>area_info\<close> that a \<open>plain_row\<close> at position \<open>0\<close> yields.\<close>

definition plain_info :: "pyfloat \<Rightarrow> string \<Rightarrow> 'g \<Rightarrow> 'g area_info" where
  "plain_info dm status g =
     \<lparr>distance_meters = dm, risk_status = status, geometry = g,
      area_id = PStr ''Area_0'', name = PStr ''Flood Risk Area'', source = PStr ''Unknown'',
      cycle = Some (PStr ''Unknown''), probability = None\<rparr>"

text \<open>
  A checker holding \<open>example_rows\<close> as its FRA dataset, a reservoir lookup that answers
  with a fixed risk level, and the assessment expected at the point \<open>(0, 0)\<close>.
\<close>

definition example_checker :: "shape checker" where
  "example_checker = \<lparr>fra_data = Some example_rows, rivers_sea_data = None\<rparr>"

definition example_api :: "point \<Rightarrow> string" where
  "example_api p = ''VERY LOW''"

definition example_assessment :: "(shape, string) assessment" where
  "example_assessment =
     \<lparr>coordinates = (0, 0),
      surface_water = Assessed ''MEDIUM'' ''Between 1 in 100 and 1 in 30 (1% to 3.3%)''
        ''Between 1 in 75 and 1 in 30 (1.3% to 3.3%) - higher due to climate change''
        (Some (Fin 3)) 2,
      rivers_and_sea = Assessed ''MEDIUM'' ''Between 1 in 100 and 1 in 30 (1% to 3.3%)''
        ''Between 1 in 75 and 1 in 30 (1.3% to 3.3%) - higher due to climate change''
        (Some (Fin 10)) 1,
      reservoirs = ''VERY LOW'',
      groundwater = Placeholder ''DATA NOT AVAILABLE'' ''Requires BGS data'',
      nearest_areas =
        [fra_info (Fin 3) ''OUTSIDE'' 3 ''C'' ''Surface Water'' (Box 3 (- 1) 4 1),
         fra_info (Fin 10) ''OUTSIDE'' 1 ''A'' ''Surface Water'' (Box 10.004 (- 1) 11 1),
         fra_info (Fin 10) ''OUTSIDE'' 2 ''B'' ''Rivers and Sea'' (Box 10.001 (- 1) 11 1)]\<rparr>"

section \<open>The specification's reading of the nearest-areas list\<close>

text \<open>
  The specification describes the nearest-areas list as the union of the two categories'
  result sequences, sorted again by distance and cut to five entries.
\<close>

definition spec_nearest_areas :: "'g area_info list \<Rightarrow> 'g area_info list \<Rightarrow> 'g area_info list" where
  "spec_nearest_areas surface rivers = take 5 (list_sort distance_meters (surface @ rivers))"

section \<open>Substring test\<close>

text \<open>\<open>py_in\<close> is the substring relation: some text before, the pattern, some text after.\<close>

lemma startswith_iff: "startswith pat s \<longleftrightarrow> (\<exists>post. s = pat @ post)"
  by (induction pat s rule: startswith.induct) auto

lemma py_in_iff: "py_in pat s \<longleftrightarrow> (\<exists>pre post. s = pre @ pat @ post)"
proof (induction s)
  case Nil
  then show ?case by auto
next
  case (Cons c cs)
  show ?case
  proof
    assume "py_in pat (c # cs)"
    then consider "startswith pat (c # cs)" | "py_in pat cs" by auto
    then show "\<exists>pre post. c # cs = pre @ pat @ post"
    proof cases
      case 1
      then obtain post where "c # cs = pat @ post" by (auto simp: startswith_iff)
      then have "c # cs = [] @ pat @ post" by simp
      then show ?thesis by blast
    next
      case 2
      then obtain pre post where "cs = pre @ pat @ post" using Cons.IH by blast
      then have "c # cs = (c # pre) @ pat @ post" by simp
      then show ?thesis by blast
    qed
  next
    assume "\<exists>pre post. c # cs = pre @ pat @ post"
    then obtain pre post where eq: "c # cs = pre @ pat @ post" by blast
    show "py_in pat (c # cs)"
    proof (cases pre)
      case Nil
      with eq have "startswith pat (c # cs)" by (auto simp: startswith_iff)
      then show ?thesis by simp
    next
      case (Cons a pre')
      with eq have "cs = pre' @ pat @ post" by simp
      then have "py_in pat cs" using Cons.IH by blast
      then show ?thesis by simp
    qed
  qed
qed

section \<open>Float comparisons and the sort\<close>

text \<open>
  \<open>list_sort\<close> keeps the elements, keeps the order of elements with equal keys, returns
  an ascending list when no key is nan, and leaves an ascending run as it is.
\<close>

lemma not_NaN_conv: "a \<noteq> NaN \<longleftrightarrow> (\<exists>r. a = Fin r)"
  by (cases a) auto

lemma flt_irrefl: "\<not> flt a a"
  by (cases a) auto

lemma flt_imp_fle: "flt a b \<Longrightarrow> fle a b"
  by (cases a; cases b) auto

lemma not_flt_imp_fle: "a \<noteq> NaN \<Longrightarrow> b \<noteq> NaN \<Longrightarrow> \<not> flt b a \<Longrightarrow> fle a b"
  by (cases a; cases b) auto

lemma fle_trans: "fle a b \<Longrightarrow> fle b c \<Longrightarrow> fle a c"
  by (cases a; cases b; cases c) auto

lemma set_insert_lt: "set (insert_lt key x ys) = insert x (set ys)"
  by (induction ys) auto

lemma length_insert_lt: "length (insert_lt key x ys) = Suc (length ys)"
  by (induction ys) auto

lemma set_list_sort: "set (list_sort key xs) = set xs"
  by (induction xs) (auto simp: set_insert_lt)

lemma length_list_sort: "length (list_sort key xs) = length xs"
  by (induction xs) (auto simp: length_insert_lt)

lemma filter_insert_lt:
  "filter (\<lambda>y. key y = k) (insert_lt key x ys) =
     (if key x = k then x # filter (\<lambda>y. key y = k) ys else filter (\<lambda>y. key y = k) ys)"
  by (induction ys) (auto simp: flt_irrefl)

lemma list_sort_stable:
  "filter (\<lambda>y. key y = k) (list_sort key xs) = filter (\<lambda>y. key y = k) xs"
  by (induction xs) (auto simp: filter_insert_lt)

lemma sorted_insert_lt:
  assumes "key x \<noteq> NaN" and "\<forall>y\<in>set ys. key y \<noteq> NaN"
    and "sorted_wrt (\<lambda>a b. fle (key a) (key b)) ys"
  shows "sorted_wrt (\<lambda>a b. fle (key a) (key b)) (insert_lt key x ys)"
  using assms
proof (induction ys)
  case Nil
  then show ?case by simp
next
  case (Cons y ys)
  show ?case
  proof (cases "flt (key y) (key x)")
    case True
    have "sorted_wrt (\<lambda>a b. fle (key a) (key b)) (insert_lt key x ys)"
      using Cons by simp
    moreover have "\<forall>z\<in>set (insert_lt key x ys). fle (key y) (key z)"
      using Cons.prems(3) True by (auto simp: set_insert_lt flt_imp_fle)
    ultimately show ?thesis using True by simp
  next
    case False
    have xy: "fle (key x) (key y)"
      using False Cons.prems(1,2) by (simp add: not_flt_imp_fle)
    have "\<forall>z\<in>set ys. fle (key x) (key z)"
      using Cons.prems(3) xy by (auto intro: fle_trans)
    with xy Cons.prems(3) False show ?thesis by simp
  qed
qed

lemma sorted_list_sort:
  "\<forall>x\<in>set xs. key x \<noteq> NaN \<Longrightarrow> sorted_wrt (\<lambda>a b. fle (key a) (key b)) (list_sort key xs)"
  by (induction xs) (auto intro!: sorted_insert_lt simp: set_list_sort)

lemma list_sort_run:
  "successively (\<lambda>a b. \<not> flt (key b) (key a)) xs \<Longrightarrow> list_sort key xs = xs"
  by (induction xs rule: induct_list012) auto

section \<open>The loop over the rows\<close>

text \<open>
  What a successful loop body stores, when the body raises, and what the loop returns:
  the result at position \<open>i\<close> comes from the row at position \<open>i\<close>.
\<close>

lemma build_area_info_Inr:
  assumes "build_area_info contains distance point n area = Inr r"
  shows "row_geometry area = Some (geometry r)"
    and "distance_meters r = py_round2 (unrounded_distance contains distance point (geometry r))"
    and "(risk_status r = ''INSIDE'') = contains (geometry r) point"
  using assms
  by (auto simp: build_area_info_def unrounded_distance_def Let_def
      split: option.splits if_splits)

lemma build_area_info_Inl_iff:
  "(\<exists>e. build_area_info contains distance point n area = Inl e) \<longleftrightarrow> raising_row area"
  by (auto simp: build_area_info_def raising_row_def lacks_fra_field_def Let_def
      split: option.splits)

lemma iterrows_Inr:
  "iterrows contains distance point rows acc = Inr out \<Longrightarrow>
   \<exists>new. out = acc @ new \<and> length new = length rows \<and>
     (\<forall>i<length rows.
        build_area_info contains distance point (length acc + i) (rows ! i) = Inr (new ! i))"
proof (induction rows arbitrary: acc)
  case Nil
  then show ?case by simp
next
  case (Cons area rest)
  from Cons.prems obtain info where
    b: "build_area_info contains distance point (length acc) area = Inr info" and
    r: "iterrows contains distance point rest (acc @ [info]) = Inr out"
    by (auto split: sum.splits)
  from Cons.IH [OF r] obtain new where
    n: "out = (acc @ [info]) @ new" "length new = length rest"
      "\<forall>i<length rest. build_area_info contains distance point (length (acc @ [info]) + i) (rest ! i)
          = Inr (new ! i)"
    by blast
  have "\<forall>i<length (area # rest).
      build_area_info contains distance point (length acc + i) ((area # rest) ! i)
        = Inr ((info # new) ! i)"
  proof (intro allI impI)
    fix i assume "i < length (area # rest)"
    then show "build_area_info contains distance point (length acc + i) ((area # rest) ! i)
        = Inr ((info # new) ! i)"
      using b n(3) by (cases i) auto
  qed
  with n(1,2) show ?case
    by (intro exI [of _ "info # new"]) simp
qed

lemma iterrows_Inl_iff:
  "(\<exists>e. iterrows contains distance point rows acc = Inl e) \<longleftrightarrow>
   (\<exists>area\<in>set rows. raising_row area)"
proof (induction rows arbitrary: acc)
  case Nil
  then show ?case by simp
next
  case (Cons area rest)
  show ?case
  proof (cases "build_area_info contains distance point (length acc) area")
    case (Inl e)
    then have "raising_row area"
      using build_area_info_Inl_iff [of contains distance point "length acc" area] by auto
    with Inl show ?thesis by simp
  next
    case (Inr info)
    then have "\<not> raising_row area"
      using build_area_info_Inl_iff [of contains distance point "length acc" area] by auto
    with Inr Cons.IH [of "acc @ [info]"] show ?thesis by simp
  qed
qed

lemma calculate_Inr_iterrows:
  assumes "calculate_distance_to_flood_areas contains distance (Some point) (Some rows) = Inr results"
  shows "\<exists>unsorted. iterrows contains distance point rows [] = Inr unsorted \<and>
           results = list_sort distance_meters unsorted"
  using assms
  by (cases rows) (auto simp: calculate_distance_to_flood_areas_def split: sum.splits)

lemma calculate_results_fields:
  assumes "calculate_distance_to_flood_areas contains distance (Some point) (Some rows) = Inr results"
    and "r \<in> set results"
  shows "distance_meters r = py_round2 (unrounded_distance contains distance point (geometry r))"
    and "(risk_status r = ''INSIDE'') = contains (geometry r) point"
proof -
  from calculate_Inr_iterrows [OF assms(1)] obtain unsorted where
    u: "iterrows contains distance point rows [] = Inr unsorted"
      "results = list_sort distance_meters unsorted"
    by blast
  from assms(2) u(2) have "r \<in> set unsorted" by (simp add: set_list_sort)
  then obtain i where i: "i < length unsorted" "unsorted ! i = r"
    by (auto simp: in_set_conv_nth)
  from iterrows_Inr [OF u(1)] i have
    b: "build_area_info contains distance point i (rows ! i) = Inr r"
    by auto
  from build_area_info_Inr(2,3) [OF b]
  show "distance_meters r = py_round2 (unrounded_distance contains distance point (geometry r))"
    and "(risk_status r = ''INSIDE'') = contains (geometry r) point"
    by simp_all
qed

lemma risk_level_assess_areas:
  "risk_level (assess_areas (closest # rest)) =
     categorize_risk_from_distance (distance_meters closest) (risk_status closest = ''INSIDE'')"
  by (simp add: assess_areas_def Let_def)

text \<open>
  The method around the loop: its early returns, when it raises, and the length of what
  it returns. Then the aggregator, by the state of the FRA dataset.
\<close>

lemma calculate_degenerate:
  "calculate_distance_to_flood_areas contains distance None data_source = Inr []"
  "calculate_distance_to_flood_areas contains distance coords None = Inr []"
  "calculate_distance_to_flood_areas contains distance coords (Some []) = Inr []"
  by (simp_all add: calculate_distance_to_flood_areas_def split: option.splits)

lemma calculate_Inl_iff:
  "(\<exists>e. calculate_distance_to_flood_areas contains distance (Some point) (Some rows) = Inl e)
     \<longleftrightarrow> (\<exists>area\<in>set rows. raising_row area)"
proof (cases "rows = []")
  case True
  then show ?thesis by (simp add: calculate_distance_to_flood_areas_def)
next
  case False
  have "(\<exists>e. calculate_distance_to_flood_areas contains distance (Some point) (Some rows) = Inl e)
      \<longleftrightarrow> (\<exists>e. iterrows contains distance point rows [] = Inl e)"
    using False by (auto simp: calculate_distance_to_flood_areas_def split: sum.splits)
  then show ?thesis by (simp only: iterrows_Inl_iff)
qed

lemma calculate_length:
  assumes "calculate_distance_to_flood_areas contains distance (Some point) (Some rows) = Inr results"
  shows "length results = length rows"
proof -
  from calculate_Inr_iterrows [OF assms] obtain unsorted where
    u: "iterrows contains distance point rows [] = Inr unsorted"
      "results = list_sort distance_meters unsorted"
    by blast
  from iterrows_Inr [OF u(1)] have "length unsorted = length rows" by auto
  with u(2) show ?thesis by (simp add: length_list_sort)
qed

lemma assess_with_fra:
  assumes "fra_data self = Some rows"
  shows "assess_comprehensive_flood_risk contains distance api self (Some point) =
     (case calculate_distance_to_flood_areas contains distance (Some point) (Some rows) of
        Inl e \<Rightarrow> Inl e
      | Inr all_fra_areas \<Rightarrow>
          Inr (Some \<lparr>coordinates = point,
                surface_water = assess_areas (surface_areas all_fra_areas),
                rivers_and_sea = assess_areas (rivers_areas all_fra_areas),
                reservoirs = api point,
                groundwater = Placeholder ''DATA NOT AVAILABLE'' ''Requires BGS data'',
                nearest_areas = take 5 all_fra_areas\<rparr>))"
  using assms by (simp add: assess_comprehensive_flood_risk_def)

lemma assess_without_fra:
  assumes "fra_data self = None"
  shows "assess_comprehensive_flood_risk contains distance api self (Some point) =
     Inr (Some \<lparr>coordinates = point,
           surface_water = Placeholder ''DATA NOT AVAILABLE''
             ''Surface water data not yet integrated'',
           rivers_and_sea = Placeholder ''DATA NOT AVAILABLE'' ''Processing...'',
           reservoirs = api point,
           groundwater = Placeholder ''DATA NOT AVAILABLE'' ''Requires BGS data'',
           nearest_areas = []\<rparr>)"
  using assms by (simp add: assess_comprehensive_flood_risk_def)

lemma assess_no_point:
  "assess_comprehensive_flood_risk contains distance api self None = Inr None"
  by (simp add: assess_comprehensive_flood_risk_def)

text \<open>The definitions unfolded to run the examples.\<close>

lemmas example_defs =
  calculate_distance_to_flood_areas_def build_area_info_def unrounded_distance_def
  fra_row_def band_row_def plain_row_def id_only_row_def no_geometry_row_def fra_info_def
  example_rows_def nan_rows_def round2_def Let_def

lemmas assess_defs =
  assess_comprehensive_flood_risk_def assess_areas_def surface_areas_def rivers_areas_def
  py_str_def categorize_risk_from_distance_def get_yearly_chance_estimate_def
  project_future_risk_def plain_info_def example_checker_def example_api_def
  example_assessment_def

section \<open>Risk classifier\<close>

text \<open>
  C1. The classifier follows the threshold ladder: an inside flag gives HIGH; otherwise a
  distance of at most 100 gives MEDIUM; otherwise a distance of at most 500 gives LOW;
  otherwise VERY LOW, which is also what a nan distance gets. Both thresholds are
  inclusive: exactly 100.00 is MEDIUM, 100.01 is LOW, exactly 500.00 is LOW, 500.01 is
  VERY LOW.
\<close>

theorem categorize_risk_ladder:
  "(is_inside \<longrightarrow> categorize_risk_from_distance d is_inside = ''HIGH'')
   \<and> (\<not> is_inside \<and> x \<le> 100 \<longrightarrow>
        categorize_risk_from_distance (Fin x) is_inside = ''MEDIUM'')
   \<and> (\<not> is_inside \<and> 100 < x \<and> x \<le> 500 \<longrightarrow>
        categorize_risk_from_distance (Fin x) is_inside = ''LOW'')
   \<and> (\<not> is_inside \<and> 500 < x \<longrightarrow>
        categorize_risk_from_distance (Fin x) is_inside = ''VERY LOW'')
   \<and> (\<not> is_inside \<longrightarrow> categorize_risk_from_distance NaN is_inside = ''VERY LOW'')
   \<and> categorize_risk_from_distance (Fin 100.00) False = ''MEDIUM''
   \<and> categorize_risk_from_distance (Fin 100.01) False = ''LOW''
   \<and> categorize_risk_from_distance (Fin 500.00) False = ''LOW''
   \<and> categorize_risk_from_distance (Fin 500.01) False = ''VERY LOW''"
  by (simp add: categorize_risk_from_distance_def)

theorem categorize_risk_ladder_witness:
  "categorize_risk_from_distance (Fin 0) True = ''HIGH''
   \<and> categorize_risk_from_distance (Fin 75) False = ''MEDIUM''
   \<and> categorize_risk_from_distance (Fin 300) False = ''LOW''
   \<and> categorize_risk_from_distance (Fin 600) False = ''VERY LOW''
   \<and> categorize_risk_from_distance NaN False = ''VERY LOW''"
  using categorize_risk_ladder [where is_inside = True and d = "Fin 0"]
    categorize_risk_ladder [where is_inside = False and x = 75]
    categorize_risk_ladder [where is_inside = False and x = 300]
    categorize_risk_ladder [where is_inside = False and x = 600]
  by simp

section \<open>Future band projection\<close>

text \<open>
  C7, as the code has it. The projection depends on the present-day band string alone and
  is decided by substring match, the first match winning: a string containing
  \<open>Greater than 1 in 30\<close> maps to the HIGH band with the increasing-trend note; one
  containing \<open>Between 1 in 100 and 1 in 30\<close> and not the first pattern maps to the
  narrowed 1-in-75 to 1-in-30 band with the climate-change note; any other string maps
  to itself with the "may increase slightly" note appended.
\<close>

theorem project_future_risk_pattern:
  "((\<exists>pre post. s = pre @ ''Greater than 1 in 30'' @ post) \<longrightarrow>
      project_future_risk s = ''Greater than 1 in 30 (3.3%) - increasing trend expected'')
   \<and> (\<not> (\<exists>pre post. s = pre @ ''Greater than 1 in 30'' @ post)
        \<and> (\<exists>pre post. s = pre @ ''Between 1 in 100 and 1 in 30'' @ post) \<longrightarrow>
      project_future_risk s =
        ''Between 1 in 75 and 1 in 30 (1.3% to 3.3%) - higher due to climate change'')
   \<and> (\<not> (\<exists>pre post. s = pre @ ''Greater than 1 in 30'' @ post)
        \<and> \<not> (\<exists>pre post. s = pre @ ''Between 1 in 100 and 1 in 30'' @ post) \<longrightarrow>
      project_future_risk s = s @ '' - may increase slightly due to climate change'')"
  unfolding project_future_risk_def py_in_iff by simp

text \<open>
  C7 as stated sends every string that contains the MEDIUM band pattern to the narrowed
  band. A string that contains both patterns is sent to the HIGH text.
\<close>

theorem medium_pattern_counterexample:
  "py_in ''Between 1 in 100 and 1 in 30''
     ''Between 1 in 100 and 1 in 30; Greater than 1 in 30''
   \<and> project_future_risk ''Between 1 in 100 and 1 in 30; Greater than 1 in 30'' =
       ''Greater than 1 in 30 (3.3%) - increasing trend expected''
   \<and> project_future_risk ''Between 1 in 100 and 1 in 30; Greater than 1 in 30'' \<noteq>
       ''Between 1 in 75 and 1 in 30 (1.3% to 3.3%) - higher due to climate change''"
  by (simp add: project_future_risk_def)

theorem project_future_risk_pattern_witness:
  "project_future_risk (get_yearly_chance_estimate ''HIGH'') =
     ''Greater than 1 in 30 (3.3%) - increasing trend expected''
   \<and> project_future_risk (get_yearly_chance_estimate ''MEDIUM'') =
     ''Between 1 in 75 and 1 in 30 (1.3% to 3.3%) - higher due to climate change''
   \<and> project_future_risk (get_yearly_chance_estimate ''LOW'') =
     ''Between 1 in 1000 and 1 in 100 (0.1% to 1%) - may increase slightly due to climate change''
   \<and> project_future_risk (get_yearly_chance_estimate ''VERY LOW'') =
     ''Less than 1 in 1000 (0.1%) - may increase slightly due to climate change''"
  using project_future_risk_pattern [of "get_yearly_chance_estimate ''HIGH''"]
    project_future_risk_pattern [of "get_yearly_chance_estimate ''MEDIUM''"]
    project_future_risk_pattern [of "get_yearly_chance_estimate ''LOW''"]
    project_future_risk_pattern [of "get_yearly_chance_estimate ''VERY LOW''"]
  unfolding py_in_iff [symmetric]
  by (simp add: get_yearly_chance_estimate_def)

section \<open>Independence of the rivers and sea dataset\<close>

text \<open>
  C10. The composite assessment does not depend on the loaded rivers/sea dataset: two
  checkers that differ only in \<open>rivers_sea_data\<close> (its contents or its presence) give
  the same assessment for the same point, FRA dataset and reservoir result.
\<close>

theorem assessment_ignores_rivers_sea_data:
  "assess_comprehensive_flood_risk contains distance check_reservoir_risk_api
     (self\<lparr>rivers_sea_data := other\<rparr>) coords =
   assess_comprehensive_flood_risk contains distance check_reservoir_risk_api self coords"
  by (simp add: assess_comprehensive_flood_risk_def split: option.splits)

section \<open>Schema detection\<close>

text \<open>
  C9, as the code has it. For a row with a geometry, the schema branches are tried in a
  fixed order and the first match wins: a row with \<^verbatim>\<open>fra_id\<close>, \<^verbatim>\<open>fra_name\<close>
  and \<^verbatim>\<open>flood_sour\<close> has these used directly, the cycle defaulting to "Unknown";
  otherwise a row with \<^verbatim>\<open>prob_4band\<close> gets the source "Rivers and Sea", an
  identifier made from its position, and the band carried over; otherwise the generic
  fallback gives the source "Unknown" and a made-up identifier and name. The step raises
  AttributeError on a row without a geometry, and it raises exactly on such a row and on
  a row that has \<^verbatim>\<open>fra_id\<close> and lacks \<^verbatim>\<open>fra_name\<close> or \<^verbatim>\<open>flood_sour\<close>; when
  no row is of these kinds, the loop yields exactly one record per row, in the order of
  the rows.
\<close>

theorem build_area_info_schema_priority:
  "(row_geometry area = Some g \<and> row_fields area ''fra_id'' = Some fid
      \<and> row_fields area ''fra_name'' = Some fname
      \<and> row_fields area ''flood_sour'' = Some fsour \<longrightarrow>
      (\<exists>r. build_area_info contains distance point n area = Inr r
         \<and> area_id r = fid \<and> name r = fname \<and> source r = fsour
         \<and> cycle r = Some (case row_fields area ''frr_cycle'' of
                             None \<Rightarrow> PStr ''Unknown'' | Some c \<Rightarrow> c)
         \<and> probability r = None \<and> geometry r = g))
   \<and> (row_geometry area = Some g \<and> row_fields area ''fra_id'' = None
      \<and> row_fields area ''prob_4band'' = Some band \<longrightarrow>
      (\<exists>r. build_area_info contains distance point n area = Inr r
         \<and> area_id r = PStr (''Rivers_Sea_'' @ str_nat n)
         \<and> name r = PStr ''Rivers and Sea Risk Area''
         \<and> source r = PStr ''Rivers and Sea''
         \<and> cycle r = None \<and> probability r = Some band \<and> geometry r = g))
   \<and> (row_geometry area = Some g \<and> row_fields area ''fra_id'' = None
      \<and> row_fields area ''prob_4band'' = None \<longrightarrow>
      (\<exists>r. build_area_info contains distance point n area = Inr r
         \<and> area_id r = PStr (''Area_'' @ str_nat n)
         \<and> name r = PStr ''Flood Risk Area''
         \<and> source r = PStr ''Unknown''
         \<and> cycle r = Some (PStr ''Unknown'') \<and> probability r = None
         \<and> geometry r = g))
   \<and> (row_geometry area = None \<longrightarrow>
        build_area_info contains distance point n area = Inl (AttributeError ''contains''))
   \<and> ((\<exists>e. build_area_info contains distance point n area = Inl e) \<longleftrightarrow>
        row_geometry area = None \<or> lacks_fra_field area)
   \<and> (\<forall>out. iterrows contains distance point rows [] = Inr out \<longrightarrow>
        length out = length rows \<and>
        (\<forall>i<length rows. build_area_info contains distance point i (rows ! i) = Inr (out ! i)))"
proof -
  have a: "row_geometry area = Some g \<and> row_fields area ''fra_id'' = Some fid
      \<and> row_fields area ''fra_name'' = Some fname
      \<and> row_fields area ''flood_sour'' = Some fsour \<longrightarrow>
      (\<exists>r. build_area_info contains distance point n area = Inr r
         \<and> area_id r = fid \<and> name r = fname \<and> source r = fsour
         \<and> cycle r = Some (case row_fields area ''frr_cycle'' of
                             None \<Rightarrow> PStr ''Unknown'' | Some c \<Rightarrow> c)
         \<and> probability r = None \<and> geometry r = g)"
    by (simp add: build_area_info_def Let_def)
  have b: "row_geometry area = Some g \<and> row_fields area ''fra_id'' = None
      \<and> row_fields area ''prob_4band'' = Some band \<longrightarrow>
      (\<exists>r. build_area_info contains distance point n area = Inr r
         \<and> area_id r = PStr (''Rivers_Sea_'' @ str_nat n)
         \<and> name r = PStr ''Rivers and Sea Risk Area''
         \<and> source r = PStr ''Rivers and Sea''
         \<and> cycle r = None \<and> probability r = Some band \<and> geometry r = g)"
    by (simp add: build_area_info_def Let_def)
  have c: "row_geometry area = Some g \<and> row_fields area ''fra_id'' = None
      \<and> row_fields area ''prob_4band'' = None \<longrightarrow>
      (\<exists>r. build_area_info contains distance point n area = Inr r
         \<and> area_id r = PStr (''Area_'' @ str_nat n)
         \<and> name r = PStr ''Flood Risk Area''
         \<and> source r = PStr ''Unknown''
         \<and> cycle r = Some (PStr ''Unknown'') \<and> probability r = None
         \<and> geometry r = g)"
    by (simp add: build_area_info_def Let_def)
  have g: "row_geometry area = None \<longrightarrow>
        build_area_info contains distance point n area = Inl (AttributeError ''contains'')"
    by (simp add: build_area_info_def)
  have d: "(\<exists>e. build_area_info contains distance point n area = Inl e) \<longleftrightarrow>
        row_geometry area = None \<or> lacks_fra_field area"
    using build_area_info_Inl_iff [of contains distance point n area]
    by (simp add: raising_row_def)
  have e: "\<forall>out. iterrows contains distance point rows [] = Inr out \<longrightarrow>
        length out = length rows \<and>
        (\<forall>i<length rows. build_area_info contains distance point i (rows ! i) = Inr (out ! i))"
    using iterrows_Inr [of contains distance point rows "[]"] by auto
  from a b c g d e show ?thesis by (intro conjI)
qed

text \<open>
  C9 as stated says that normalization is total. A row with \<^verbatim>\<open>fra_id\<close> alone
  enters the first branch and raises KeyError at \<^verbatim>\<open>area['fra_name']\<close>; a row
  without a geometry raises AttributeError before any branch is tried.
\<close>

theorem schema_totality_counterexample:
  "build_area_info shape_contains shape_distance (0, 0) 0 (id_only_row 1 (Box 3 (- 1) 4 1))
     = Inl (KeyError ''fra_name'')
   \<and> build_area_info shape_contains shape_distance (0, 0) 0
       (no_geometry_row 1 ''A'' ''Surface Water'') = Inl (AttributeError ''contains'')"
  by (simp add: build_area_info_def id_only_row_def no_geometry_row_def)

theorem build_area_info_schema_priority_witness:
  "(\<exists>r. build_area_info shape_contains shape_distance (0, 0) 4
          (fra_row 1 ''A'' ''Surface Water'' (Box 3 (- 1) 4 1)) = Inr r
       \<and> area_id r = PInt 1 \<and> name r = PStr ''A'' \<and> source r = PStr ''Surface Water''
       \<and> cycle r = Some (PInt 2))
   \<and> (\<exists>r. build_area_info shape_contains shape_distance (0, 0) 4
          (band_row ''High'' (Box 3 (- 1) 4 1)) = Inr r
       \<and> area_id r = PStr ''Rivers_Sea_4'' \<and> source r = PStr ''Rivers and Sea''
       \<and> probability r = Some (PStr ''High''))
   \<and> (\<exists>r. build_area_info shape_contains shape_distance (0, 0) 4
          (plain_row (Box 3 (- 1) 4 1)) = Inr r
       \<and> area_id r = PStr ''Area_4'' \<and> name r = PStr ''Flood Risk Area''
       \<and> source r = PStr ''Unknown'')
   \<and> lacks_fra_field (id_only_row 1 (Box 3 (- 1) 4 1))
   \<and> (\<exists>e. build_area_info shape_contains shape_distance (0, 0) 4
          (id_only_row 1 (Box 3 (- 1) 4 1)) = Inl e)
   \<and> build_area_info shape_contains shape_distance (0, 0) 4
        (no_geometry_row 1 ''A'' ''Surface Water'') = Inl (AttributeError ''contains'')"
proof -
  let ?g = "Box 3 (- 1) 4 1"
  have s4: "str_nat 4 = ''4''"
    by (simp add: str_nat.simps digit_char_def)
  have l: "lacks_fra_field (id_only_row 1 ?g)"
    by (simp add: lacks_fra_field_def id_only_row_def)
  from build_area_info_schema_priority
    [where area = "fra_row 1 ''A'' ''Surface Water'' ?g" and g = ?g and fid = "PInt 1"
      and fname = "PStr ''A''" and fsour = "PStr ''Surface Water''"
      and contains = shape_contains and distance = shape_distance and point = "(0, 0)"
      and n = 4 and rows = "[]"]
  have a: "\<exists>r. build_area_info shape_contains shape_distance (0, 0) 4
          (fra_row 1 ''A'' ''Surface Water'' ?g) = Inr r
       \<and> area_id r = PInt 1 \<and> name r = PStr ''A'' \<and> source r = PStr ''Surface Water''
       \<and> cycle r = Some (PInt 2)"
    by (auto simp: fra_row_def)
  from build_area_info_schema_priority
    [where area = "band_row ''High'' ?g" and g = ?g and band = "PStr ''High''"
      and contains = shape_contains and distance = shape_distance and point = "(0, 0)"
      and n = 4 and rows = "[]"]
  have b: "\<exists>r. build_area_info shape_contains shape_distance (0, 0) 4
          (band_row ''High'' ?g) = Inr r
       \<and> area_id r = PStr ''Rivers_Sea_4'' \<and> source r = PStr ''Rivers and Sea''
       \<and> probability r = Some (PStr ''High'')"
    by (auto simp: band_row_def s4)
  from build_area_info_schema_priority
    [where area = "plain_row ?g" and g = ?g
      and contains = shape_contains and distance = shape_distance and point = "(0, 0)"
      and n = 4 and rows = "[]"]
  have c: "\<exists>r. build_area_info shape_contains shape_distance (0, 0) 4
          (plain_row ?g) = Inr r
       \<and> area_id r = PStr ''Area_4'' \<and> name r = PStr ''Flood Risk Area''
       \<and> source r = PStr ''Unknown''"
    by (auto simp: plain_row_def s4)
  from build_area_info_schema_priority
    [where area = "id_only_row 1 ?g" and g = ?g
      and contains = shape_contains and distance = shape_distance and point = "(0, 0)"
      and n = 4 and rows = "[]"] l
  have d: "\<exists>e. build_area_info shape_contains shape_distance (0, 0) 4
          (id_only_row 1 ?g) = Inl e"
    by simp
  from build_area_info_schema_priority
    [where area = "no_geometry_row 1 ''A'' ''Surface Water''" and g = ?g
      and contains = shape_contains and distance = shape_distance and point = "(0, 0)"
      and n = 4 and rows = "[]"]
  have e: "build_area_info shape_contains shape_distance (0, 0) 4
        (no_geometry_row 1 ''A'' ''Surface Water'') = Inl (AttributeError ''contains'')"
    by (simp add: no_geometry_row_def)
  from a b c l d e show ?thesis by (intro conjI)
qed

section \<open>Containment and zero distance\<close>

text \<open>
  C2 says that the reported distance is 0 exactly when the containment flag is set. For a
  rectangle whose nearest edge is 4 mm east of the point, the point is outside, the
  distance 0.004 is rounded to 0.0, and the result carries distance 0 with the status
  OUTSIDE. The same happens for a point on the boundary of the rectangle, which
  \<^verbatim>\<open>contains\<close> does not count as inside.
\<close>

theorem zero_distance_outside:
  "calculate_distance_to_flood_areas shape_contains shape_distance (Some (0, 0))
     (Some [fra_row 1 ''A'' ''Surface Water'' (Box 0.004 (- 1) 1 1)]) =
     Inr [fra_info (Fin 0) ''OUTSIDE'' 1 ''A'' ''Surface Water'' (Box 0.004 (- 1) 1 1)]
   \<and> \<not> shape_contains (Box 0.004 (- 1) 1 1) (0, 0)
   \<and> shape_distance (0, 0) (Box 0.004 (- 1) 1 1) = Fin 0.004
   \<and> calculate_distance_to_flood_areas shape_contains shape_distance (Some (0, 0))
     (Some [fra_row 2 ''B'' ''Surface Water'' (Box 0 (- 1) 1 1)]) =
     Inr [fra_info (Fin 0) ''OUTSIDE'' 2 ''B'' ''Surface Water'' (Box 0 (- 1) 1 1)]"
  by (simp add: example_defs)

section \<open>Rounding and comparisons\<close>

text \<open>
  C3, as the code has it. Each result stores the distance rounded to two decimal places.
  The sort compares these rounded values: when no distance is nan, the output ascends in
  the rounded distance and results with the same rounded distance keep the order of the
  input rows, also when their unrounded distances differ. The classifier compares the
  rounded distance of the head of either category with the thresholds.
\<close>

theorem comparisons_use_rounded_distance:
  assumes "calculate_distance_to_flood_areas contains distance (Some point) (Some rows) = Inr results"
  shows "(\<forall>r\<in>set results.
            distance_meters r = py_round2 (unrounded_distance contains distance point (geometry r)))
    \<and> ((\<forall>r\<in>set results. distance_meters r \<noteq> NaN) \<longrightarrow>
          sorted_wrt
            (\<lambda>a b. fle (py_round2 (unrounded_distance contains distance point (geometry a)))
                       (py_round2 (unrounded_distance contains distance point (geometry b))))
            results
          \<and> (\<exists>unsorted. iterrows contains distance point rows [] = Inr unsorted
               \<and> (\<forall>k. filter (\<lambda>r. py_round2
                              (unrounded_distance contains distance point (geometry r)) = k) results
                      = filter (\<lambda>r. py_round2
                              (unrounded_distance contains distance point (geometry r)) = k)
                          unsorted)))
    \<and> (\<forall>closest rest. surface_areas results = closest # rest \<longrightarrow>
          risk_level (assess_areas (surface_areas results)) =
            categorize_risk_from_distance
              (py_round2 (unrounded_distance contains distance point (geometry closest)))
              (contains (geometry closest) point))
    \<and> (\<forall>closest rest. rivers_areas results = closest # rest \<longrightarrow>
          risk_level (assess_areas (rivers_areas results)) =
            categorize_risk_from_distance
              (py_round2 (unrounded_distance contains distance point (geometry closest)))
              (contains (geometry closest) point))"
proof -
  note fields = calculate_results_fields [OF assms]
  let ?key = "\<lambda>r. py_round2 (unrounded_distance contains distance point (geometry r))"
  have dm: "\<forall>r\<in>set results. distance_meters r = ?key r"
    using fields(1) by blast
  from calculate_Inr_iterrows [OF assms] obtain unsorted where
    u: "iterrows contains distance point rows [] = Inr unsorted"
      "results = list_sort distance_meters unsorted"
    by blast
  have su: "set unsorted = set results"
    by (simp add: u(2) set_list_sort)
  have ord: "sorted_wrt (\<lambda>a b. fle (?key a) (?key b)) results
      \<and> (\<exists>unsorted. iterrows contains distance point rows [] = Inr unsorted
           \<and> (\<forall>k. filter (\<lambda>r. ?key r = k) results = filter (\<lambda>r. ?key r = k) unsorted))"
    if finite: "\<forall>r\<in>set results. distance_meters r \<noteq> NaN"
  proof -
    from finite su have "\<forall>r\<in>set unsorted. distance_meters r \<noteq> NaN" by simp
    then have "sorted_wrt (\<lambda>a b. fle (distance_meters a) (distance_meters b)) results"
      unfolding u(2) by (rule sorted_list_sort)
    then have s: "sorted_wrt (\<lambda>a b. fle (?key a) (?key b)) results"
      by (rule sorted_wrt_mono_rel [rotated]) (use dm in auto)
    have st: "filter (\<lambda>r. ?key r = k) results = filter (\<lambda>r. ?key r = k) unsorted" for k
    proof -
      have "filter (\<lambda>r. ?key r = k) results = filter (\<lambda>r. distance_meters r = k) results"
        by (rule filter_cong) (use dm in auto)
      also have "\<dots> = filter (\<lambda>r. distance_meters r = k) unsorted"
        by (simp add: u(2) list_sort_stable)
      also have "\<dots> = filter (\<lambda>r. ?key r = k) unsorted"
        by (rule filter_cong) (use dm su in auto)
      finally show ?thesis .
    qed
    from s u(1) st show ?thesis by blast
  qed
  have cls: "risk_level (assess_areas (closest # rest)) =
            categorize_risk_from_distance (?key closest) (contains (geometry closest) point)"
    if "closest \<in> set results" for closest rest
    using fields [OF that] by (simp add: risk_level_assess_areas)
  have sw: "\<forall>closest rest. surface_areas results = closest # rest \<longrightarrow>
          risk_level (assess_areas (surface_areas results)) =
            categorize_risk_from_distance (?key closest) (contains (geometry closest) point)"
  proof (intro allI impI)
    fix closest rest assume eq: "surface_areas results = closest # rest"
    then have "closest \<in> set (surface_areas results)" by simp
    then have "closest \<in> set results" by (simp add: surface_areas_def)
    from cls [OF this] eq
    show "risk_level (assess_areas (surface_areas results)) =
            categorize_risk_from_distance (?key closest) (contains (geometry closest) point)"
      by simp
  qed
  have rs: "\<forall>closest rest. rivers_areas results = closest # rest \<longrightarrow>
          risk_level (assess_areas (rivers_areas results)) =
            categorize_risk_from_distance (?key closest) (contains (geometry closest) point)"
  proof (intro allI impI)
    fix closest rest assume eq: "rivers_areas results = closest # rest"
    then have "closest \<in> set (rivers_areas results)" by simp
    then have "closest \<in> set results" by (simp add: rivers_areas_def)
    from cls [OF this] eq
    show "risk_level (assess_areas (rivers_areas results)) =
            categorize_risk_from_distance (?key closest) (contains (geometry closest) point)"
      by simp
  qed
  from dm ord sw rs show ?thesis by (intro conjI impI) auto
qed

text \<open>
  C3 as stated says that the sort and the thresholds use the unrounded distances. Areas
  at 10.004 m and 10.001 m keep their input order, although the second is nearer; an
  area at 100.004 m is classified MEDIUM, although its distance exceeds 100.
\<close>

theorem unrounded_comparison_counterexample:
  "calculate_distance_to_flood_areas shape_contains shape_distance (Some (0, 0))
     (Some [fra_row 1 ''A'' ''Surface Water'' (Box 10.004 (- 1) 11 1),
            fra_row 2 ''B'' ''Surface Water'' (Box 10.001 (- 1) 11 1)]) =
     Inr [fra_info (Fin 10) ''OUTSIDE'' 1 ''A'' ''Surface Water'' (Box 10.004 (- 1) 11 1),
          fra_info (Fin 10) ''OUTSIDE'' 2 ''B'' ''Surface Water'' (Box 10.001 (- 1) 11 1)]
   \<and> flt (unrounded_distance shape_contains shape_distance (0, 0) (Box 10.001 (- 1) 11 1))
         (unrounded_distance shape_contains shape_distance (0, 0) (Box 10.004 (- 1) 11 1))
   \<and> calculate_distance_to_flood_areas shape_contains shape_distance (Some (0, 0))
       (Some [fra_row 7 ''D'' ''Surface Water'' (Box 100.004 (- 1) 110 1)]) =
       Inr [fra_info (Fin 100) ''OUTSIDE'' 7 ''D'' ''Surface Water'' (Box 100.004 (- 1) 110 1)]
   \<and> risk_level (assess_areas (surface_areas
        [fra_info (Fin 100) ''OUTSIDE'' 7 ''D'' ''Surface Water'' (Box 100.004 (- 1) 110 1)]))
       = ''MEDIUM''
   \<and> categorize_risk_from_distance
        (unrounded_distance shape_contains shape_distance (0, 0) (Box 100.004 (- 1) 110 1)) False
       = ''LOW''"
  by (simp add: example_defs surface_areas_def assess_areas_def py_str_def
      categorize_risk_from_distance_def)

theorem comparisons_use_rounded_distance_witness:
  "calculate_distance_to_flood_areas shape_contains shape_distance (Some (0, 0))
     (Some [fra_row 1 ''A'' ''Surface Water'' (Box 10.004 (- 1) 11 1),
            fra_row 2 ''B'' ''Surface Water'' (Box 10.001 (- 1) 11 1)]) =
     Inr [fra_info (Fin 10) ''OUTSIDE'' 1 ''A'' ''Surface Water'' (Box 10.004 (- 1) 11 1),
          fra_info (Fin 10) ''OUTSIDE'' 2 ''B'' ''Surface Water'' (Box 10.001 (- 1) 11 1)]
   \<and> py_round2 (unrounded_distance shape_contains shape_distance (0, 0)
        (Box 10.004 (- 1) 11 1)) = Fin 10
   \<and> py_round2 (unrounded_distance shape_contains shape_distance (0, 0)
        (Box 10.001 (- 1) 11 1)) = Fin 10
   \<and> (\<exists>unsorted. iterrows shape_contains shape_distance (0, 0)
          [fra_row 1 ''A'' ''Surface Water'' (Box 10.004 (- 1) 11 1),
           fra_row 2 ''B'' ''Surface Water'' (Box 10.001 (- 1) 11 1)] [] = Inr unsorted
        \<and> filter (\<lambda>r. py_round2 (unrounded_distance shape_contains shape_distance (0, 0)
                         (geometry r)) = Fin 10)
            [fra_info (Fin 10) ''OUTSIDE'' 1 ''A'' ''Surface Water'' (Box 10.004 (- 1) 11 1),
             fra_info (Fin 10) ''OUTSIDE'' 2 ''B'' ''Surface Water'' (Box 10.001 (- 1) 11 1)]
          = filter (\<lambda>r. py_round2 (unrounded_distance shape_contains shape_distance (0, 0)
                         (geometry r)) = Fin 10) unsorted)
   \<and> risk_level (assess_areas (surface_areas
        [fra_info (Fin 10) ''OUTSIDE'' 1 ''A'' ''Surface Water'' (Box 10.004 (- 1) 11 1),
         fra_info (Fin 10) ''OUTSIDE'' 2 ''B'' ''Surface Water'' (Box 10.001 (- 1) 11 1)])) =
      categorize_risk_from_distance (Fin 10) False"
proof -
  let ?rows = "[fra_row 1 ''A'' ''Surface Water'' (Box 10.004 (- 1) 11 1),
            fra_row 2 ''B'' ''Surface Water'' (Box 10.001 (- 1) 11 1)]"
  let ?a = "fra_info (Fin 10) ''OUTSIDE'' 1 ''A'' ''Surface Water'' (Box 10.004 (- 1) 11 1)"
  let ?b = "fra_info (Fin 10) ''OUTSIDE'' 2 ''B'' ''Surface Water'' (Box 10.001 (- 1) 11 1)"
  have run: "calculate_distance_to_flood_areas shape_contains shape_distance (Some (0, 0))
       (Some ?rows) = Inr [?a, ?b]"
    by (simp add: example_defs)
  have fin: "\<forall>r\<in>set [?a, ?b]. distance_meters r \<noteq> NaN"
    by (simp add: fra_info_def)
  have sw: "surface_areas [?a, ?b] = [?a, ?b]"
    by (simp add: surface_areas_def fra_info_def py_str_def)
  have g: "geometry ?a = Box 10.004 (- 1) 11 1"
    by (simp add: fra_info_def)
  have ra: "py_round2 (unrounded_distance shape_contains shape_distance (0, 0)
      (Box 10.004 (- 1) 11 1)) = Fin 10"
    by (simp add: example_defs)
  have rb: "py_round2 (unrounded_distance shape_contains shape_distance (0, 0)
      (Box 10.001 (- 1) 11 1)) = Fin 10"
    by (simp add: example_defs)
  have c: "shape_contains (Box 10.004 (- 1) 11 1) (0, 0) = False"
    by simp
  note main = comparisons_use_rounded_distance [OF run]
  from main fin have st: "\<exists>unsorted. iterrows shape_contains shape_distance (0, 0) ?rows []
          = Inr unsorted
        \<and> filter (\<lambda>r. py_round2 (unrounded_distance shape_contains shape_distance (0, 0)
                         (geometry r)) = Fin 10) [?a, ?b]
          = filter (\<lambda>r. py_round2 (unrounded_distance shape_contains shape_distance (0, 0)
                         (geometry r)) = Fin 10) unsorted"
    by blast
  from main sw have "risk_level (assess_areas (surface_areas [?a, ?b])) =
      categorize_risk_from_distance
        (py_round2 (unrounded_distance shape_contains shape_distance (0, 0) (geometry ?a)))
        (shape_contains (geometry ?a) (0, 0))"
    by blast
  then have cl: "risk_level (assess_areas (surface_areas [?a, ?b])) =
      categorize_risk_from_distance (Fin 10) False"
    by (simp only: g ra c)
  from run ra rb st cl show ?thesis by (intro conjI)
qed

section \<open>Sorted and stable output\<close>

text \<open>
  C4, as the code has it. For a point and a sequence of rows none of whose distances is
  nan, the output is sorted ascending by distance, and results of equal distance keep
  the relative order their rows had in the input: the results of any given distance are,
  in order, those of the list built in input order.
\<close>

theorem calculate_sorted_stable:
  assumes "calculate_distance_to_flood_areas contains distance (Some point) (Some rows) = Inr results"
    and "\<forall>r\<in>set results. distance_meters r \<noteq> NaN"
  shows "sorted_wrt (\<lambda>a b. fle (distance_meters a) (distance_meters b)) results \<and>
    (\<exists>unsorted. iterrows contains distance point rows [] = Inr unsorted \<and>
       length unsorted = length rows \<and>
       (\<forall>i<length rows. build_area_info contains distance point i (rows ! i) = Inr (unsorted ! i)) \<and>
       (\<forall>k. filter (\<lambda>r. distance_meters r = k) results =
            filter (\<lambda>r. distance_meters r = k) unsorted))"
proof -
  from calculate_Inr_iterrows [OF assms(1)] obtain unsorted where
    u: "iterrows contains distance point rows [] = Inr unsorted"
      "results = list_sort distance_meters unsorted"
    by blast
  from iterrows_Inr [OF u(1)] have
    pos: "length unsorted = length rows"
      "\<forall>i<length rows. build_area_info contains distance point i (rows ! i) = Inr (unsorted ! i)"
    by auto
  from assms(2) have "\<forall>r\<in>set unsorted. distance_meters r \<noteq> NaN"
    by (simp add: u(2) set_list_sort)
  then have srt: "sorted_wrt (\<lambda>a b. fle (distance_meters a) (distance_meters b)) results"
    unfolding u(2) by (rule sorted_list_sort)
  have stab: "\<forall>k. filter (\<lambda>r. distance_meters r = k) results =
            filter (\<lambda>r. distance_meters r = k) unsorted"
    unfolding u(2) by (simp add: list_sort_stable)
  from srt u(1) pos stab show ?thesis by blast
qed

text \<open>
  C4 as stated covers every sequence of rows. For an area at 600 m, an area with an empty
  polygon and an area at 3 m, in this order, the distance of the second is nan, every
  comparison with it is false, the sort leaves the list as it is, and the output has the
  area at 600 m before the area at 3 m.
\<close>

theorem nan_distance_counterexample:
  "calculate_distance_to_flood_areas shape_contains shape_distance (Some (0, 0)) (Some nan_rows) =
     Inr [fra_info (Fin 600) ''OUTSIDE'' 1 ''A'' ''Surface Water'' (Box 600 (- 1) 700 1),
          fra_info NaN ''OUTSIDE'' 2 ''E'' ''Surface Water'' EmptyPolygon,
          fra_info (Fin 3) ''OUTSIDE'' 3 ''C'' ''Surface Water'' (Box 3 (- 1) 4 1)]
   \<and> \<not> sorted_wrt (\<lambda>a b. fle (distance_meters a) (distance_meters b))
       [fra_info (Fin 600) ''OUTSIDE'' 1 ''A'' ''Surface Water'' (Box 600 (- 1) 700 1),
        fra_info NaN ''OUTSIDE'' 2 ''E'' ''Surface Water'' EmptyPolygon,
        fra_info (Fin 3) ''OUTSIDE'' 3 ''C'' ''Surface Water'' (Box 3 (- 1) 4 1)]
   \<and> flt (Fin 3) (Fin 600)"
  by (simp add: example_defs)

theorem calculate_sorted_stable_witness:
  "calculate_distance_to_flood_areas shape_contains shape_distance (Some (0, 0)) (Some example_rows) =
     Inr [fra_info (Fin 3) ''OUTSIDE'' 3 ''C'' ''Surface Water'' (Box 3 (- 1) 4 1),
          fra_info (Fin 10) ''OUTSIDE'' 1 ''A'' ''Surface Water'' (Box 10.004 (- 1) 11 1),
          fra_info (Fin 10) ''OUTSIDE'' 2 ''B'' ''Rivers and Sea'' (Box 10.001 (- 1) 11 1)]
   \<and> (sorted_wrt (\<lambda>a b. fle (distance_meters a) (distance_meters b))
         [fra_info (Fin 3) ''OUTSIDE'' 3 ''C'' ''Surface Water'' (Box 3 (- 1) 4 1),
          fra_info (Fin 10) ''OUTSIDE'' 1 ''A'' ''Surface Water'' (Box 10.004 (- 1) 11 1),
          fra_info (Fin 10) ''OUTSIDE'' 2 ''B'' ''Rivers and Sea'' (Box 10.001 (- 1) 11 1)]
     \<and> (\<exists>unsorted. iterrows shape_contains shape_distance (0, 0) example_rows [] = Inr unsorted \<and>
       length unsorted = length example_rows \<and>
       (\<forall>i<length example_rows.
          build_area_info shape_contains shape_distance (0, 0) i (example_rows ! i)
            = Inr (unsorted ! i)) \<and>
       (\<forall>k. filter (\<lambda>r. distance_meters r = k)
              [fra_info (Fin 3) ''OUTSIDE'' 3 ''C'' ''Surface Water'' (Box 3 (- 1) 4 1),
               fra_info (Fin 10) ''OUTSIDE'' 1 ''A'' ''Surface Water'' (Box 10.004 (- 1) 11 1),
               fra_info (Fin 10) ''OUTSIDE'' 2 ''B'' ''Rivers and Sea'' (Box 10.001 (- 1) 11 1)] =
            filter (\<lambda>r. distance_meters r = k) unsorted)))"
proof -
  have run: "calculate_distance_to_flood_areas shape_contains shape_distance (Some (0, 0))
      (Some example_rows) =
     Inr [fra_info (Fin 3) ''OUTSIDE'' 3 ''C'' ''Surface Water'' (Box 3 (- 1) 4 1),
          fra_info (Fin 10) ''OUTSIDE'' 1 ''A'' ''Surface Water'' (Box 10.004 (- 1) 11 1),
          fra_info (Fin 10) ''OUTSIDE'' 2 ''B'' ''Rivers and Sea'' (Box 10.001 (- 1) 11 1)]"
    by (simp add: example_defs)
  have fin: "\<forall>r\<in>set
         [fra_info (Fin 3) ''OUTSIDE'' 3 ''C'' ''Surface Water'' (Box 3 (- 1) 4 1),
          fra_info (Fin 10) ''OUTSIDE'' 1 ''A'' ''Surface Water'' (Box 10.004 (- 1) 11 1),
          fra_info (Fin 10) ''OUTSIDE'' 2 ''B'' ''Rivers and Sea'' (Box 10.001 (- 1) 11 1)].
       distance_meters r \<noteq> NaN"
    by (simp add: fra_info_def)
  from run calculate_sorted_stable [OF run fin] show ?thesis by (rule conjI)
qed

section \<open>Nearest areas\<close>

text \<open>
  C5, as the code has it. For an assessment built from a present point and a loaded FRA
  dataset, the nearest-areas list is the first five entries of the evaluator's result for
  the whole dataset, whatever category each area falls in; its length is the smaller of
  5 and the number of rows of the dataset, and it is sorted ascending by distance when no
  distance in the evaluator's result is nan.
\<close>

theorem nearest_areas_first_five:
  assumes "fra_data self = Some rows"
    and "assess_comprehensive_flood_risk contains distance api self (Some point) = Inr (Some a)"
  shows "(\<exists>all_fra_areas.
            calculate_distance_to_flood_areas contains distance (Some point) (Some rows)
              = Inr all_fra_areas
            \<and> nearest_areas a = take 5 all_fra_areas
            \<and> ((\<forall>r\<in>set all_fra_areas. distance_meters r \<noteq> NaN) \<longrightarrow>
                 sorted_wrt (\<lambda>a b. fle (distance_meters a) (distance_meters b))
                   (nearest_areas a)))
    \<and> length (nearest_areas a) = min 5 (length rows)"
proof -
  from assms obtain all_fra_areas where
    c: "calculate_distance_to_flood_areas contains distance (Some point) (Some rows)
          = Inr all_fra_areas" and
    n: "nearest_areas a = take 5 all_fra_areas"
    by (auto simp: assess_with_fra split: sum.splits)
  have s: "sorted_wrt (\<lambda>a b. fle (distance_meters a) (distance_meters b)) (nearest_areas a)"
    if fin: "\<forall>r\<in>set all_fra_areas. distance_meters r \<noteq> NaN"
  proof -
    from calculate_Inr_iterrows [OF c] obtain unsorted where
      u: "all_fra_areas = list_sort distance_meters unsorted"
      by blast
    from fin have "\<forall>r\<in>set unsorted. distance_meters r \<noteq> NaN"
      by (simp add: u set_list_sort)
    then have "sorted_wrt (\<lambda>a b. fle (distance_meters a) (distance_meters b)) all_fra_areas"
      unfolding u by (rule sorted_list_sort)
    then show ?thesis
      unfolding n by (rule sorted_wrt_take)
  qed
  have l: "length (nearest_areas a) = min 5 (length rows)"
    using calculate_length [OF c] n by simp
  from c n s l show ?thesis by blast
qed

text \<open>
  C5 as stated takes the list from the two categories. A dataset with one row of the
  generic schema has the source "Unknown", which is in neither category: both category
  sequences are empty, so their union cut to five is empty, while the nearest-areas list
  holds the area.
\<close>

theorem nearest_areas_counterexample:
  "assess_comprehensive_flood_risk shape_contains shape_distance example_api
     \<lparr>fra_data = Some [plain_row (Box 3 (- 1) 4 1)], rivers_sea_data = None\<rparr> (Some (0, 0)) =
     Inr (Some \<lparr>coordinates = (0, 0),
       surface_water = Assessed ''VERY LOW'' ''Less than 1 in 1000 (0.1%)''
         ''Less than 1 in 1000 (0.1%) - may increase slightly'' None 0,
       rivers_and_sea = Assessed ''VERY LOW'' ''Less than 1 in 1000 (0.1%)''
         ''Less than 1 in 1000 (0.1%) - may increase slightly'' None 0,
       reservoirs = ''VERY LOW'',
       groundwater = Placeholder ''DATA NOT AVAILABLE'' ''Requires BGS data'',
       nearest_areas = [plain_info (Fin 3) ''OUTSIDE'' (Box 3 (- 1) 4 1)]\<rparr>)
   \<and> calculate_distance_to_flood_areas shape_contains shape_distance (Some (0, 0))
       (Some [plain_row (Box 3 (- 1) 4 1)]) = Inr [plain_info (Fin 3) ''OUTSIDE'' (Box 3 (- 1) 4 1)]
   \<and> spec_nearest_areas (surface_areas [plain_info (Fin 3) ''OUTSIDE'' (Box 3 (- 1) 4 1)])
        (rivers_areas [plain_info (Fin 3) ''OUTSIDE'' (Box 3 (- 1) 4 1)]) = []"
  by (simp add: example_defs assess_defs spec_nearest_areas_def str_nat.simps digit_char_def)

theorem nearest_areas_first_five_witness:
  "fra_data example_checker = Some example_rows
   \<and> assess_comprehensive_flood_risk shape_contains shape_distance example_api example_checker
       (Some (0, 0)) = Inr (Some example_assessment)
   \<and> (\<exists>all_fra_areas.
         calculate_distance_to_flood_areas shape_contains shape_distance (Some (0, 0))
           (Some example_rows) = Inr all_fra_areas
         \<and> nearest_areas example_assessment = take 5 all_fra_areas)
   \<and> sorted_wrt (\<lambda>a b. fle (distance_meters a) (distance_meters b))
       (nearest_areas example_assessment)
   \<and> length (nearest_areas example_assessment) = min 5 (length example_rows)"
proof -
  have f: "fra_data example_checker = Some example_rows"
    by (simp add: example_checker_def)
  have run: "assess_comprehensive_flood_risk shape_contains shape_distance example_api
      example_checker (Some (0, 0)) = Inr (Some example_assessment)"
    by (simp add: example_defs assess_defs)
  have calc: "calculate_distance_to_flood_areas shape_contains shape_distance (Some (0, 0))
      (Some example_rows) = Inr (nearest_areas example_assessment)"
    by (simp add: example_defs example_assessment_def)
  have fin: "\<forall>r\<in>set (nearest_areas example_assessment). distance_meters r \<noteq> NaN"
    by (simp add: example_assessment_def fra_info_def)
  from nearest_areas_first_five [OF f run] calc fin
  have ex: "\<exists>all_fra_areas.
         calculate_distance_to_flood_areas shape_contains shape_distance (Some (0, 0))
           (Some example_rows) = Inr all_fra_areas
         \<and> nearest_areas example_assessment = take 5 all_fra_areas"
    and s: "sorted_wrt (\<lambda>a b. fle (distance_meters a) (distance_meters b))
       (nearest_areas example_assessment)"
    and l: "length (nearest_areas example_assessment) = min 5 (length example_rows)"
    by auto
  from f run ex s l show ?thesis by (intro conjI)
qed

section \<open>Categories without areas\<close>

text \<open>
  C6, as the code has it. With a present point and a loaded FRA dataset, a category with
  no matching area gets the fixed default: VERY LOW, the band "Less than 1 in 1000
  (0.1%)" for the present and the future, no nearest distance and a count of zero; so do
  both categories when the dataset is empty. When the dataset is missing, both categories
  keep the "DATA NOT AVAILABLE" placeholder.
\<close>

theorem category_defaults:
  "(fra_data self = Some rows
      \<and> assess_comprehensive_flood_risk contains distance api self (Some point) = Inr (Some a) \<longrightarrow>
      (\<exists>all_fra_areas.
         calculate_distance_to_flood_areas contains distance (Some point) (Some rows)
           = Inr all_fra_areas
         \<and> (surface_areas all_fra_areas = [] \<longrightarrow>
              surface_water a = Assessed ''VERY LOW'' ''Less than 1 in 1000 (0.1%)''
                ''Less than 1 in 1000 (0.1%) - may increase slightly'' None 0)
         \<and> (rivers_areas all_fra_areas = [] \<longrightarrow>
              rivers_and_sea a = Assessed ''VERY LOW'' ''Less than 1 in 1000 (0.1%)''
                ''Less than 1 in 1000 (0.1%) - may increase slightly'' None 0)))
   \<and> (fra_data self = Some [] \<longrightarrow>
      (\<exists>b. assess_comprehensive_flood_risk contains distance api self (Some point) = Inr (Some b)
         \<and> surface_water b = Assessed ''VERY LOW'' ''Less than 1 in 1000 (0.1%)''
              ''Less than 1 in 1000 (0.1%) - may increase slightly'' None 0
         \<and> rivers_and_sea b = Assessed ''VERY LOW'' ''Less than 1 in 1000 (0.1%)''
              ''Less than 1 in 1000 (0.1%) - may increase slightly'' None 0))
   \<and> (fra_data self = None \<longrightarrow>
      (\<exists>b. assess_comprehensive_flood_risk contains distance api self (Some point) = Inr (Some b)
         \<and> surface_water b = Placeholder ''DATA NOT AVAILABLE''
              ''Surface water data not yet integrated''
         \<and> rivers_and_sea b = Placeholder ''DATA NOT AVAILABLE'' ''Processing...''))"
proof (intro conjI impI)
  assume h: "fra_data self = Some rows
      \<and> assess_comprehensive_flood_risk contains distance api self (Some point) = Inr (Some a)"
  then obtain all_fra_areas where
    c: "calculate_distance_to_flood_areas contains distance (Some point) (Some rows)
          = Inr all_fra_areas" and
    sw: "surface_water a = assess_areas (surface_areas all_fra_areas)" and
    rs: "rivers_and_sea a = assess_areas (rivers_areas all_fra_areas)"
    by (auto simp: assess_with_fra split: sum.splits)
  have "surface_areas all_fra_areas = [] \<longrightarrow>
      surface_water a = Assessed ''VERY LOW'' ''Less than 1 in 1000 (0.1%)''
        ''Less than 1 in 1000 (0.1%) - may increase slightly'' None 0"
    by (simp add: sw assess_areas_def)
  moreover have "rivers_areas all_fra_areas = [] \<longrightarrow>
      rivers_and_sea a = Assessed ''VERY LOW'' ''Less than 1 in 1000 (0.1%)''
        ''Less than 1 in 1000 (0.1%) - may increase slightly'' None 0"
    by (simp add: rs assess_areas_def)
  ultimately show "\<exists>all_fra_areas.
         calculate_distance_to_flood_areas contains distance (Some point) (Some rows)
           = Inr all_fra_areas
         \<and> (surface_areas all_fra_areas = [] \<longrightarrow>
              surface_water a = Assessed ''VERY LOW'' ''Less than 1 in 1000 (0.1%)''
                ''Less than 1 in 1000 (0.1%) - may increase slightly'' None 0)
         \<and> (rivers_areas all_fra_areas = [] \<longrightarrow>
              rivers_and_sea a = Assessed ''VERY LOW'' ''Less than 1 in 1000 (0.1%)''
                ''Less than 1 in 1000 (0.1%) - may increase slightly'' None 0)"
    using c by blast
next
  assume "fra_data self = Some []"
  then show "\<exists>b. assess_comprehensive_flood_risk contains distance api self (Some point)
         = Inr (Some b)
       \<and> surface_water b = Assessed ''VERY LOW'' ''Less than 1 in 1000 (0.1%)''
            ''Less than 1 in 1000 (0.1%) - may increase slightly'' None 0
       \<and> rivers_and_sea b = Assessed ''VERY LOW'' ''Less than 1 in 1000 (0.1%)''
            ''Less than 1 in 1000 (0.1%) - may increase slightly'' None 0"
    by (simp add: assess_with_fra calculate_degenerate assess_areas_def surface_areas_def
        rivers_areas_def)
next
  assume "fra_data self = None"
  then show "\<exists>b. assess_comprehensive_flood_risk contains distance api self (Some point)
         = Inr (Some b)
       \<and> surface_water b = Placeholder ''DATA NOT AVAILABLE''
            ''Surface water data not yet integrated''
       \<and> rivers_and_sea b = Placeholder ''DATA NOT AVAILABLE'' ''Processing...''"
    by (simp add: assess_without_fra)
qed

text \<open>
  C6 as stated includes the missing dataset among the cases that get the VERY LOW
  default. Without an FRA dataset the categories are the placeholders.
\<close>

theorem missing_dataset_counterexample:
  "assess_comprehensive_flood_risk shape_contains shape_distance example_api
     \<lparr>fra_data = None, rivers_sea_data = None\<rparr> (Some (0, 0)) =
     Inr (Some \<lparr>coordinates = (0, 0),
       surface_water = Placeholder ''DATA NOT AVAILABLE''
         ''Surface water data not yet integrated'',
       rivers_and_sea = Placeholder ''DATA NOT AVAILABLE'' ''Processing...'',
       reservoirs = ''VERY LOW'',
       groundwater = Placeholder ''DATA NOT AVAILABLE'' ''Requires BGS data'',
       nearest_areas = []\<rparr>)"
  by (simp add: assess_comprehensive_flood_risk_def example_api_def)

theorem category_defaults_witness:
  "(\<exists>all_fra_areas.
       calculate_distance_to_flood_areas shape_contains shape_distance (Some (0, 0))
         (Some [fra_row 2 ''B'' ''Rivers and Sea'' (Box 3 (- 1) 4 1)]) = Inr all_fra_areas
       \<and> surface_areas all_fra_areas = [])
   \<and> (\<exists>b. assess_comprehensive_flood_risk shape_contains shape_distance example_api
          \<lparr>fra_data = Some [fra_row 2 ''B'' ''Rivers and Sea'' (Box 3 (- 1) 4 1)],
           rivers_sea_data = None\<rparr> (Some (0, 0)) = Inr (Some b)
        \<and> surface_water b = Assessed ''VERY LOW'' ''Less than 1 in 1000 (0.1%)''
             ''Less than 1 in 1000 (0.1%) - may increase slightly'' None 0
        \<and> risk_level (rivers_and_sea b) = ''MEDIUM'')
   \<and> (\<exists>b. assess_comprehensive_flood_risk shape_contains shape_distance example_api
          \<lparr>fra_data = Some [], rivers_sea_data = None\<rparr> (Some (0, 0)) = Inr (Some b)
        \<and> surface_water b = Assessed ''VERY LOW'' ''Less than 1 in 1000 (0.1%)''
             ''Less than 1 in 1000 (0.1%) - may increase slightly'' None 0
        \<and> rivers_and_sea b = Assessed ''VERY LOW'' ''Less than 1 in 1000 (0.1%)''
             ''Less than 1 in 1000 (0.1%) - may increase slightly'' None 0)
   \<and> (\<exists>b. assess_comprehensive_flood_risk shape_contains shape_distance example_api
          \<lparr>fra_data = None, rivers_sea_data = None\<rparr> (Some (0, 0)) = Inr (Some b)
        \<and> surface_water b = Placeholder ''DATA NOT AVAILABLE''
             ''Surface water data not yet integrated''
        \<and> rivers_and_sea b = Placeholder ''DATA NOT AVAILABLE'' ''Processing...'')"
proof -
  let ?ck = "\<lparr>fra_data = Some [fra_row 2 ''B'' ''Rivers and Sea'' (Box 3 (- 1) 4 1)],
           rivers_sea_data = None\<rparr> :: shape checker"
  let ?b = "\<lparr>coordinates = (0, 0),
       surface_water = Assessed ''VERY LOW'' ''Less than 1 in 1000 (0.1%)''
         ''Less than 1 in 1000 (0.1%) - may increase slightly'' None 0,
       rivers_and_sea = Assessed ''MEDIUM'' ''Between 1 in 100 and 1 in 30 (1% to 3.3%)''
        ''Between 1 in 75 and 1 in 30 (1.3% to 3.3%) - higher due to climate change''
        (Some (Fin 3)) 1,
       reservoirs = ''VERY LOW'',
       groundwater = Placeholder ''DATA NOT AVAILABLE'' ''Requires BGS data'',
       nearest_areas = [fra_info (Fin 3) ''OUTSIDE'' 2 ''B'' ''Rivers and Sea'' (Box 3 (- 1) 4 1)]\<rparr>"
  have calc: "calculate_distance_to_flood_areas shape_contains shape_distance (Some (0, 0))
         (Some [fra_row 2 ''B'' ''Rivers and Sea'' (Box 3 (- 1) 4 1)]) =
         Inr [fra_info (Fin 3) ''OUTSIDE'' 2 ''B'' ''Rivers and Sea'' (Box 3 (- 1) 4 1)]"
    by (simp add: example_defs)
  have sw: "surface_areas [fra_info (Fin 3) ''OUTSIDE'' 2 ''B'' ''Rivers and Sea'' (Box 3 (- 1) 4 1)] = []"
    by (simp add: surface_areas_def fra_info_def py_str_def)
  have run: "assess_comprehensive_flood_risk shape_contains shape_distance example_api ?ck
      (Some (0, 0)) = Inr (Some ?b)"
    by (simp add: example_defs assess_defs)
  have f: "fra_data ?ck = Some [fra_row 2 ''B'' ''Rivers and Sea'' (Box 3 (- 1) 4 1)]"
    by simp
  from category_defaults
    [of ?ck "[fra_row 2 ''B'' ''Rivers and Sea'' (Box 3 (- 1) 4 1)]" shape_contains shape_distance
      example_api "(0, 0)" ?b] f run calc sw
  have "surface_water ?b = Assessed ''VERY LOW'' ''Less than 1 in 1000 (0.1%)''
             ''Less than 1 in 1000 (0.1%) - may increase slightly'' None 0"
    by simp
  with run have one: "\<exists>b. assess_comprehensive_flood_risk shape_contains shape_distance example_api
          ?ck (Some (0, 0)) = Inr (Some b)
        \<and> surface_water b = Assessed ''VERY LOW'' ''Less than 1 in 1000 (0.1%)''
             ''Less than 1 in 1000 (0.1%) - may increase slightly'' None 0
        \<and> risk_level (rivers_and_sea b) = ''MEDIUM''"
    by simp
  from category_defaults
    [of "\<lparr>fra_data = Some [], rivers_sea_data = None\<rparr> :: shape checker" "[]"
      shape_contains shape_distance example_api "(0, 0)" ?b]
  have two: "\<exists>b. assess_comprehensive_flood_risk shape_contains shape_distance example_api
          \<lparr>fra_data = Some [], rivers_sea_data = None\<rparr> (Some (0, 0)) = Inr (Some b)
        \<and> surface_water b = Assessed ''VERY LOW'' ''Less than 1 in 1000 (0.1%)''
             ''Less than 1 in 1000 (0.1%) - may increase slightly'' None 0
        \<and> rivers_and_sea b = Assessed ''VERY LOW'' ''Less than 1 in 1000 (0.1%)''
             ''Less than 1 in 1000 (0.1%) - may increase slightly'' None 0"
    by simp
  from category_defaults
    [of "\<lparr>fra_data = None, rivers_sea_data = None\<rparr> :: shape checker" "[]"
      shape_contains shape_distance example_api "(0, 0)" ?b]
  have three: "\<exists>b. assess_comprehensive_flood_risk shape_contains shape_distance example_api
          \<lparr>fra_data = None, rivers_sea_data = None\<rparr> (Some (0, 0)) = Inr (Some b)
        \<and> surface_water b = Placeholder ''DATA NOT AVAILABLE''
             ''Surface water data not yet integrated''
        \<and> rivers_and_sea b = Placeholder ''DATA NOT AVAILABLE'' ''Processing...''"
    by simp
  from calc sw have zero: "\<exists>all_fra_areas.
       calculate_distance_to_flood_areas shape_contains shape_distance (Some (0, 0))
         (Some [fra_row 2 ''B'' ''Rivers and Sea'' (Box 3 (- 1) 4 1)]) = Inr all_fra_areas
       \<and> surface_areas all_fra_areas = []"
    by simp
  from zero one two three show ?thesis by (intro conjI)
qed

section \<open>Empty results and exceptions\<close>

text \<open>
  C8, as the code has it. The evaluator returns an empty list when the point is missing,
  the dataset is missing or the dataset is empty. The aggregator returns the empty
  composite exactly when the point is absent. For a point given as two numbers, the
  evaluator raises exactly when some row has no geometry, or has \<^verbatim>\<open>fra_id\<close> and lacks
  \<^verbatim>\<open>fra_name\<close> or \<^verbatim>\<open>flood_sour\<close>, and the aggregator raises exactly when the
  point is present and the FRA dataset has such a row; otherwise they return a result.
\<close>

theorem core_returns_or_raises:
  "calculate_distance_to_flood_areas contains distance None data_source = Inr []
   \<and> calculate_distance_to_flood_areas contains distance coords None = Inr []
   \<and> calculate_distance_to_flood_areas contains distance coords (Some []) = Inr []
   \<and> (assess_comprehensive_flood_risk contains distance api self coords = Inr None
        \<longleftrightarrow> coords = None)
   \<and> ((\<exists>e. calculate_distance_to_flood_areas contains distance (Some point) (Some rows) = Inl e)
        \<longleftrightarrow> (\<exists>area\<in>set rows. row_geometry area = None \<or> lacks_fra_field area))
   \<and> ((\<exists>e. assess_comprehensive_flood_risk contains distance api self coords = Inl e)
        \<longleftrightarrow> coords \<noteq> None
           \<and> (\<exists>fra. fra_data self = Some fra
                \<and> (\<exists>area\<in>set fra. row_geometry area = None \<or> lacks_fra_field area)))"
proof -
  have empty: "assess_comprehensive_flood_risk contains distance api self coords = Inr None
        \<longleftrightarrow> coords = None"
    by (auto simp: assess_comprehensive_flood_risk_def split: option.splits sum.splits)
  have calc: "(\<exists>e. calculate_distance_to_flood_areas contains distance (Some p) (Some fra) = Inl e)
        \<longleftrightarrow> (\<exists>area\<in>set fra. row_geometry area = None \<or> lacks_fra_field area)" for p fra
    using calculate_Inl_iff [of contains distance p fra] by (simp add: raising_row_def)
  have raises: "(\<exists>e. assess_comprehensive_flood_risk contains distance api self coords = Inl e)
        \<longleftrightarrow> coords \<noteq> None
           \<and> (\<exists>fra. fra_data self = Some fra
                \<and> (\<exists>area\<in>set fra. row_geometry area = None \<or> lacks_fra_field area))"
  proof (cases coords)
    case None
    then show ?thesis by (simp add: assess_no_point)
  next
    case (Some p)
    show ?thesis
    proof (cases "fra_data self")
      case None
      with Some show ?thesis by (simp add: assess_without_fra)
    next
      case (Some fra)
      have "(\<exists>e. assess_comprehensive_flood_risk contains distance api self (Some p) = Inl e)
          \<longleftrightarrow> (\<exists>e. calculate_distance_to_flood_areas contains distance (Some p) (Some fra) = Inl e)"
        by (auto simp: assess_with_fra [OF Some] split: sum.splits)
      with Some \<open>coords = Some p\<close> show ?thesis
        by (simp add: calc)
    qed
  qed
  from calculate_degenerate [of contains distance] empty calc raises
  show ?thesis by (intro conjI)
qed

text \<open>
  C8 as stated says that the core never raises. On a dataset whose only row has
  \<^verbatim>\<open>fra_id\<close> alone, the evaluator and the aggregator raise KeyError; on a dataset
  whose only row has no geometry, they raise AttributeError.
\<close>

theorem never_raises_counterexample:
  "assess_comprehensive_flood_risk shape_contains shape_distance example_api
     \<lparr>fra_data = Some [id_only_row 1 (Box 3 (- 1) 4 1)], rivers_sea_data = None\<rparr> (Some (0, 0))
     = Inl (KeyError ''fra_name'')
   \<and> calculate_distance_to_flood_areas shape_contains shape_distance (Some (0, 0))
       (Some [id_only_row 1 (Box 3 (- 1) 4 1)]) = Inl (KeyError ''fra_name'')
   \<and> assess_comprehensive_flood_risk shape_contains shape_distance example_api
       \<lparr>fra_data = Some [no_geometry_row 1 ''A'' ''Surface Water''], rivers_sea_data = None\<rparr>
       (Some (0, 0))
     = Inl (AttributeError ''contains'')
   \<and> calculate_distance_to_flood_areas shape_contains shape_distance (Some (0, 0))
       (Some [no_geometry_row 1 ''A'' ''Surface Water'']) = Inl (AttributeError ''contains'')"
  by (simp add: example_defs assess_defs)

theorem core_returns_or_raises_witness:
  "calculate_distance_to_flood_areas shape_contains shape_distance (Some (0, 0)) (Some []) = Inr []
   \<and> assess_comprehensive_flood_risk shape_contains shape_distance example_api example_checker None
       = Inr None
   \<and> assess_comprehensive_flood_risk shape_contains shape_distance example_api example_checker
       (Some (0, 0)) \<noteq> Inr None
   \<and> (\<exists>e. calculate_distance_to_flood_areas shape_contains shape_distance (Some (0, 0))
       (Some [id_only_row 1 (Box 3 (- 1) 4 1)]) = Inl e)
   \<and> (\<exists>e. calculate_distance_to_flood_areas shape_contains shape_distance (Some (0, 0))
       (Some [no_geometry_row 1 ''A'' ''Surface Water'']) = Inl e)
   \<and> \<not> (\<exists>e. calculate_distance_to_flood_areas shape_contains shape_distance (Some (0, 0))
       (Some example_rows) = Inl e)"
proof -
  have bad: "\<exists>area\<in>set [id_only_row 1 (Box 3 (- 1) 4 1)].
      row_geometry area = None \<or> lacks_fra_field area"
    by (simp add: lacks_fra_field_def id_only_row_def)
  have bad2: "\<exists>area\<in>set [no_geometry_row 1 ''A'' ''Surface Water'' :: shape area_row].
      row_geometry area = None \<or> lacks_fra_field area"
    by (simp add: no_geometry_row_def)
  have good: "\<not> (\<exists>area\<in>set example_rows. row_geometry area = None \<or> lacks_fra_field area)"
    by (simp add: lacks_fra_field_def example_rows_def fra_row_def)
  from core_returns_or_raises
    [where contains = shape_contains and distance = shape_distance and data_source = None
      and coords = "Some (0, 0)" and api = example_api and self = example_checker
      and point = "(0, 0)" and rows = "[id_only_row 1 (Box 3 (- 1) 4 1)]"] bad
  have a: "calculate_distance_to_flood_areas shape_contains shape_distance (Some (0, 0)) (Some [])
      = Inr []"
    and b: "\<exists>e. calculate_distance_to_flood_areas shape_contains shape_distance (Some (0, 0))
       (Some [id_only_row 1 (Box 3 (- 1) 4 1)]) = Inl e"
    and c: "assess_comprehensive_flood_risk shape_contains shape_distance example_api
       example_checker (Some (0, 0)) \<noteq> Inr None"
    by simp_all
  from core_returns_or_raises
    [where contains = shape_contains and distance = shape_distance and data_source = None
      and coords = "Some (0, 0)" and api = example_api and self = example_checker
      and point = "(0, 0)" and rows = "[no_geometry_row 1 ''A'' ''Surface Water'']"] bad2
  have b2: "\<exists>e. calculate_distance_to_flood_areas shape_contains shape_distance (Some (0, 0))
       (Some [no_geometry_row 1 ''A'' ''Surface Water'']) = Inl e"
    by simp
  from core_returns_or_raises
    [where contains = shape_contains and distance = shape_distance and data_source = None
      and coords = None and api = example_api and self = example_checker
      and point = "(0, 0)" and rows = example_rows] good
  have d: "assess_comprehensive_flood_risk shape_contains shape_distance example_api
       example_checker None = Inr None"
    and e: "\<not> (\<exists>e. calculate_distance_to_flood_areas shape_contains shape_distance (Some (0, 0))
       (Some example_rows) = Inl e)"
    by simp_all
  from a d c b b2 e show ?thesis by (intro conjI)
qed

end
